theory Spec2Isabelle
  imports Complex_Main
begin

section \<open>Python values used by the monitor\<close>

text \<open>
  The program is \<^verbatim>\<open>src/LHML.py\<close>: the reader of the hardware-monitoring library
  (\<^verbatim>\<open>LibreHMReader\<close>) and the selector of the temperature and fan source
  (\<^verbatim>\<open>SensorSelector\<close>).

  A Python \<^verbatim>\<open>str\<close> is a \<^typ>\<open>string\<close>, one \<^typ>\<open>char\<close> per code point (code points
  below 256). A Python \<^verbatim>\<open>float\<close> is a \<^typ>\<open>real\<close>: sums and products are exact, and the
  values \<^verbatim>\<open>nan\<close> and \<^verbatim>\<open>inf\<close> do not occur. An exception is a value of \<open>py_error\<close>,
  returned on the left of a sum (\<open>WmiError\<close>: what a query of the OS management interface
  raises).
\<close>

datatype py_error = TypeError | ValueError | KeyError | AttributeError | EOFError | WmiError

text \<open>
  \<^verbatim>\<open>str.lower()\<close>. Only the letters A to Z are mapped: every use in the program tests the
  lowered string against an ASCII literal (\<^verbatim>\<open>in\<close>, \<^verbatim>\<open>==\<close>, \<^verbatim>\<open>startswith\<close>), and a
  character outside ASCII matches no character of such a literal, lowered or not.
\<close>

definition lower_char :: "char \<Rightarrow> char" where
  "lower_char c =
     (case map_of (zip ''ABCDEFGHIJKLMNOPQRSTUVWXYZ'' ''abcdefghijklmnopqrstuvwxyz'') c of
        Some l \<Rightarrow> l
      | None \<Rightarrow> c)"

definition lower :: "string \<Rightarrow> string" where
  "lower s = map lower_char s"

text \<open>\<^verbatim>\<open>s.startswith(p)\<close> and \<^verbatim>\<open>k in s\<close> (substring test).\<close>

fun startswith :: "string \<Rightarrow> string \<Rightarrow> bool" where
  "startswith s [] = True"
| "startswith [] (p # ps) = False"
| "startswith (c # cs) (p # ps) = (c = p \<and> startswith cs ps)"

fun str_contains :: "string \<Rightarrow> string \<Rightarrow> bool" where
  "str_contains k [] = (k = [])"
| "str_contains k (c # cs) = (startswith (c # cs) k \<or> str_contains k cs)"

text \<open>\<^verbatim>\<open>any(k in name for k in keys)\<close>.\<close>

definition any_in :: "string list \<Rightarrow> string \<Rightarrow> bool" where
  "any_in keys name = list_ex (\<lambda>k. str_contains k name) keys"

text \<open>\<^verbatim>\<open>int(x)\<close> of a float: truncation towards zero.\<close>

definition py_trunc :: "real \<Rightarrow> int" where
  "py_trunc x = (if 0 \<le> x then \<lfloor>x\<rfloor> else \<lceil>x\<rceil>)"

text \<open>\<^verbatim>\<open>float(v)\<close> for a value that is a float or \<^verbatim>\<open>None\<close>; \<^verbatim>\<open>float(None)\<close> raises.\<close>

definition py_float :: "real option \<Rightarrow> py_error + real" where
  "py_float v = (case v of None \<Rightarrow> Inl TypeError | Some x \<Rightarrow> Inr x)"

section \<open>The hardware tree\<close>

text \<open>
  One snapshot of the library's object graph, as the reader sees it after
  \<^verbatim>\<open>_update_recursive\<close>. \<open>s_type\<close> and \<open>hw_type\<close> are the names of the library's enumeration
  members (\<^verbatim>\<open>str(s.SensorType)\<close>, \<^verbatim>\<open>str(hw.HardwareType)\<close>), so that
  \<^verbatim>\<open>hw.HardwareType == HardwareType.Cpu\<close> is \<open>hw_type hw = ''Cpu''\<close>. \<open>s_name\<close> and \<open>hw_name\<close>
  are \<^verbatim>\<open>(x.Name or "")\<close>, \<open>s_ident\<close> is the identifier's string, \<open>s_value\<close> is
  \<^verbatim>\<open>s.Value\<close> (\<open>None\<close> for \<^verbatim>\<open>None\<close>).
\<close>

record sensor =
  s_type :: string
  s_name :: string
  s_ident :: string
  s_value :: "real option"

datatype hardware =
  Hardware (hw_type: string) (hw_name: string) (hw_sensors: "sensor list") (hw_sub: "hardware list")

text \<open>\<^verbatim>\<open>LibreHMReader\<close>: \<open>ok\<close> and \<open>comp\<close> (\<^verbatim>\<open>self._comp.Hardware\<close>, \<open>None\<close> when \<^verbatim>\<open>_comp\<close> is).\<close>

record reader =
  ok :: bool
  comp :: "hardware list option"

section \<open>Aggregate readers\<close>

subsection \<open>\<^verbatim>\<open>gpu_mem_used_total_bytes\<close>\<close>

text \<open>
  The body of the loop over \<^verbatim>\<open>hw.Sensors\<close>; the accumulator is
  \<^verbatim>\<open>(u_local, t_local, d3d_ded_local)\<close>.
\<close>

definition gpu_sensor_step ::
  "real option \<times> real option \<times> real option \<Rightarrow> sensor \<Rightarrow> real option \<times> real option \<times> real option"
where
  "gpu_sensor_step acc s =
     (case acc of (u_local, t_local, d3d_ded_local) \<Rightarrow>
        let st = lower (s_type s); name = lower (s_name s); ident = lower (s_ident s) in
        if str_contains ''smalldata'' ident \<or> st = ''smalldata'' then
          (case s_value s of
             None \<Rightarrow> acc
           | Some v \<Rightarrow>
               if str_contains ''gpu memory used'' name then (Some v, t_local, d3d_ded_local)
               else if str_contains ''gpu memory total'' name then (u_local, Some v, d3d_ded_local)
               else if str_contains ''d3d dedicated memory used'' name then (u_local, t_local, Some v)
               else acc)
        else acc)"

text \<open>
  The sensors of one GPU node, then the fallback of \<^verbatim>\<open>u_local\<close> to
  \<^verbatim>\<open>d3d_ded_local\<close>: the node's \<^verbatim>\<open>(u_local, t_local)\<close> where the totals are updated.
\<close>

definition gpu_locals :: "hardware \<Rightarrow> real option \<times> real option" where
  "gpu_locals hw =
     (case foldl gpu_sensor_step (None, None, None) (hw_sensors hw) of
        (u_local, t_local, d3d_ded_local) \<Rightarrow>
          ((if u_local = None \<and> d3d_ded_local \<noteq> None then d3d_ded_local else u_local), t_local))"

text \<open>The body of the loop over \<^verbatim>\<open>self._comp.Hardware\<close>; the accumulator is
  \<^verbatim>\<open>(used, total, has_any)\<close>
  (\<open>tot\<close> for \<^verbatim>\<open>total\<close>).\<close>

definition gpu_hw_step :: "real \<times> real \<times> bool \<Rightarrow> hardware \<Rightarrow> real \<times> real \<times> bool" where
  "gpu_hw_step acc hw =
     (case acc of (used, tot, has_any) \<Rightarrow>
        if \<not> str_contains ''Gpu'' (hw_type hw) then acc
        else
          (case gpu_locals hw of (u_local, t_local) \<Rightarrow>
             let (used1, any1) =
                   (case u_local of Some u \<Rightarrow> (used + u * 1000000, True) | None \<Rightarrow> (used, has_any));
                 (tot1, any2) =
                   (case t_local of Some t \<Rightarrow> (tot + t * 1000000, True) | None \<Rightarrow> (tot, any1))
             in (used1, tot1, any2)))"

definition gpu_accumulate :: "hardware list \<Rightarrow> real \<times> real \<times> bool" where
  "gpu_accumulate hws = foldl gpu_hw_step (0, 0, False) hws"

definition gpu_mem_used_total_bytes :: "reader \<Rightarrow> int option \<times> int option" where
  "gpu_mem_used_total_bytes r =
     (if \<not> ok r then (None, None)
      else case comp r of
        None \<Rightarrow> (None, None)
      | Some hws \<Rightarrow>
          (case gpu_accumulate hws of (used, tot, has_any) \<Rightarrow>
             if \<not> has_any then (None, None)
             else (Some (if 0 \<le> used then py_trunc used else 0),
                   if 0 < tot then Some (py_trunc tot) else None)))"

subsection \<open>\<^verbatim>\<open>cpu_effective_freq_mhz\<close>\<close>

text \<open>The body of the loop over \<^verbatim>\<open>hw.Sensors\<close>; the accumulator is \<^verbatim>\<open>vals\<close>.\<close>

definition cpu_sensor_step :: "real list \<Rightarrow> sensor \<Rightarrow> real list" where
  "cpu_sensor_step vals s =
     (if lower (s_type s) = ''clock'' then
        let nm = lower (s_name s) in
        if str_contains ''effective'' nm \<or> startswith nm ''core #'' then
          (case s_value s of
             None \<Rightarrow> vals
           | Some v \<Rightarrow> if 0 < v then vals @ [v] else vals)
        else vals
      else vals)"

definition cpu_hw_step :: "real list \<Rightarrow> hardware \<Rightarrow> real list" where
  "cpu_hw_step vals hw =
     (if hw_type hw = ''Cpu'' then foldl cpu_sensor_step vals (hw_sensors hw) else vals)"

definition cpu_effective_freq_mhz :: "reader \<Rightarrow> real option" where
  "cpu_effective_freq_mhz r =
     (if \<not> ok r then None
      else case comp r of
        None \<Rightarrow> None
      | Some hws \<Rightarrow>
          (let vals = foldl cpu_hw_step [] hws
           in if vals \<noteq> [] then Some (sum_list vals / real (length vals)) else None))"

subsection \<open>\<^verbatim>\<open>nic_up_down_bps\<close>\<close>

text \<open>
  The body of the loop over \<^verbatim>\<open>hw.Sensors\<close>; the accumulator is \<^verbatim>\<open>(u_local, d_local)\<close>,
  starting from \<^verbatim>\<open>(0.0, 0.0)\<close> for every adapter.
\<close>

definition nic_sensor_step :: "real \<times> real \<Rightarrow> sensor \<Rightarrow> real \<times> real" where
  "nic_sensor_step acc s =
     (case acc of (u_local, d_local) \<Rightarrow>
        let st = s_type s; name = lower (s_name s) in
        if lower st = ''throughput'' then
          (if str_contains ''upload'' name then
             (case s_value s of Some v \<Rightarrow> (u_local + v, d_local) | None \<Rightarrow> acc)
           else if str_contains ''download'' name then
             (case s_value s of Some v \<Rightarrow> (u_local, d_local + v) | None \<Rightarrow> acc)
           else acc)
        else acc)"

definition nic_locals :: "hardware \<Rightarrow> real \<times> real" where
  "nic_locals hw = foldl nic_sensor_step (0, 0) (hw_sensors hw)"

text \<open>The body of the loop over \<^verbatim>\<open>self._comp.Hardware\<close>; the accumulator is
  \<^verbatim>\<open>(up_bytes, down_bytes, has_any)\<close>.\<close>

definition nic_hw_step :: "real \<times> real \<times> bool \<Rightarrow> hardware \<Rightarrow> real \<times> real \<times> bool" where
  "nic_hw_step acc hw =
     (case acc of (up_bytes, down_bytes, has_any) \<Rightarrow>
        if lower (hw_type hw) \<noteq> ''network'' then acc
        else
          (case nic_locals hw of (u_local, d_local) \<Rightarrow>
             if 0 < u_local \<or> 0 < d_local
             then (up_bytes + u_local, down_bytes + d_local, True)
             else acc))"

definition nic_up_down_bps :: "reader \<Rightarrow> int option \<times> int option" where
  "nic_up_down_bps r =
     (if \<not> ok r then (None, None)
      else case comp r of
        None \<Rightarrow> (None, None)
      | Some hws \<Rightarrow>
          (case foldl nic_hw_step (0, 0, False) hws of (up_bytes, down_bytes, has_any) \<Rightarrow>
             if \<not> has_any then (None, None)
             else (Some (py_trunc (up_bytes * 8)), Some (py_trunc (down_bytes * 8)))))"

subsection \<open>\<^verbatim>\<open>storage_read_write_bps\<close>\<close>

definition storage_sensor_step :: "real \<times> real \<Rightarrow> sensor \<Rightarrow> real \<times> real" where
  "storage_sensor_step acc s =
     (case acc of (r_local, w_local) \<Rightarrow>
        let st = lower (s_type s); name = lower (s_name s) in
        if st = ''throughput'' then
          (if str_contains ''read rate'' name \<or> (str_contains ''read'' name \<and> str_contains ''rate'' name) then
             (case s_value s of Some v \<Rightarrow> (r_local + v, w_local) | None \<Rightarrow> acc)
           else if str_contains ''write rate'' name \<or> (str_contains ''write'' name \<and> str_contains ''rate'' name) then
             (case s_value s of Some v \<Rightarrow> (r_local, w_local + v) | None \<Rightarrow> acc)
           else acc)
        else acc)"

definition storage_locals :: "hardware \<Rightarrow> real \<times> real" where
  "storage_locals hw = foldl storage_sensor_step (0, 0) (hw_sensors hw)"

text \<open>The two nested tests that end in \<^verbatim>\<open>continue\<close>: the node is skipped when neither its
  type name nor its name has one of the tags.\<close>

definition storage_skipped :: "hardware \<Rightarrow> bool" where
  "storage_skipped hw =
     (let hwt = lower (hw_type hw) in
      if \<not> any_in [''storage'', ''hdd'', ''nvme''] hwt then
        (if \<not> any_in [''nvme'', ''hdd'', ''ssd'', ''wdc'', ''st''] (lower (hw_name hw)) then True
         else False)
      else False)"

definition storage_hw_step :: "real \<times> real \<times> bool \<Rightarrow> hardware \<Rightarrow> real \<times> real \<times> bool" where
  "storage_hw_step acc hw =
     (case acc of (r_bytes, w_bytes, has_any) \<Rightarrow>
        if storage_skipped hw then acc
        else
          (case storage_locals hw of (r_local, w_local) \<Rightarrow>
             if 0 < r_local \<or> 0 < w_local
             then (r_bytes + r_local, w_bytes + w_local, True)
             else acc))"

definition storage_read_write_bps :: "reader \<Rightarrow> int option \<times> int option" where
  "storage_read_write_bps r =
     (if \<not> ok r then (None, None)
      else case comp r of
        None \<Rightarrow> (None, None)
      | Some hws \<Rightarrow>
          (case foldl storage_hw_step (0, 0, False) hws of (r_bytes, w_bytes, has_any) \<Rightarrow>
             if \<not> has_any then (None, None)
             else (Some (py_trunc (r_bytes * 8)), Some (py_trunc (w_bytes * 8)))))"

section \<open>Candidates and the automatic choice\<close>

text \<open>
  A candidate is the dictionary \<^verbatim>\<open>{"type": ..., "id": ..., "name": ..., "value": ...}\<close> that
  \<^verbatim>\<open>list_temp_candidates\<close> and \<^verbatim>\<open>list_fan_candidates\<close> build: three strings and a float or
  \<^verbatim>\<open>None\<close>. (A float that is not a number, or infinite, fails both range tests below as
  \<^verbatim>\<open>None\<close> does, and so never reaches \<^verbatim>\<open>max\<close>.)
\<close>

record candidate =
  c_type :: string
  c_id :: string
  c_name :: string
  c_value :: "real option"

text \<open>
  \<^verbatim>\<open>max(xs, key=lambda x: float(x["value"]))\<close>: the first element whose key no later element
  exceeds; \<^verbatim>\<open>ValueError\<close> on the empty list, and the key's error where it raises.
\<close>

fun max_loop :: "candidate \<Rightarrow> real \<Rightarrow> candidate list \<Rightarrow> py_error + candidate" where
  "max_loop best best_key [] = Inr best"
| "max_loop best best_key (x # xs) =
     (case py_float (c_value x) of
        Inl e \<Rightarrow> Inl e
      | Inr k \<Rightarrow> if best_key < k then max_loop x k xs else max_loop best best_key xs)"

definition py_max :: "candidate list \<Rightarrow> py_error + candidate" where
  "py_max xs =
     (case xs of
        [] \<Rightarrow> Inl ValueError
      | x # rest \<Rightarrow>
          (case py_float (c_value x) of
             Inl e \<Rightarrow> Inl e
           | Inr k \<Rightarrow> max_loop x k rest))"

subsection \<open>\<^verbatim>\<open>_auto_pick_temp\<close>\<close>

definition okv_temp :: "real option \<Rightarrow> bool" where
  "okv_temp v = (case py_float v of Inl e \<Rightarrow> False | Inr vv \<Rightarrow> 0.5 < vv \<and> vv < 120.0)"

definition auto_pick_temp :: "candidate list \<Rightarrow> py_error + candidate option" where
  "auto_pick_temp temps =
     (let cpu_keywords = [''package'', ''tctl'', ''tdie'', ''cpu''];
          cpu_like = filter (\<lambda>t. c_type t = ''LHM'' \<and> any_in cpu_keywords (lower (c_name t)) \<and>
                                 okv_temp (c_value t)) temps
      in if cpu_like \<noteq> [] then
           (case py_max cpu_like of Inl e \<Rightarrow> Inl e | Inr c \<Rightarrow> Inr (Some c))
         else
           (let acpi = filter (\<lambda>t. c_type t = ''WMI_ACPI'' \<and> okv_temp (c_value t)) temps
            in if acpi \<noteq> [] then
                 (case py_max acpi of Inl e \<Rightarrow> Inl e | Inr c \<Rightarrow> Inr (Some c))
               else Inr None))"

subsection \<open>\<^verbatim>\<open>_auto_pick_fan\<close>\<close>

definition okv_fan :: "real option \<Rightarrow> bool" where
  "okv_fan v = (case py_float v of Inl e \<Rightarrow> False | Inr vv \<Rightarrow> 1.0 \<le> vv \<and> vv < 20000.0)"

definition auto_pick_fan :: "candidate list \<Rightarrow> py_error + candidate option" where
  "auto_pick_fan fans =
     (let pri = filter (\<lambda>f. c_type f = ''LHM'' \<and> any_in [''cpu'', ''aio'', ''pump''] (lower (c_name f)) \<and>
                            okv_fan (c_value f)) fans
      in if pri \<noteq> [] then
           (case py_max pri of Inl e \<Rightarrow> Inl e | Inr c \<Rightarrow> Inr (Some c))
         else
           (let lhm_any = filter (\<lambda>f. c_type f = ''LHM'' \<and> okv_fan (c_value f)) fans
            in if lhm_any \<noteq> [] then
                 (case py_max lhm_any of Inl e \<Rightarrow> Inl e | Inr c \<Rightarrow> Inr (Some c))
               else
                 (let wmi_fans = filter (\<lambda>f. c_type f = ''WMI_FAN'' \<and> okv_fan (c_value f)) fans
                  in if wmi_fans \<noteq> [] then
                       (case py_max wmi_fans of Inl e \<Rightarrow> Inl e | Inr c \<Rightarrow> Inr (Some c))
                     else Inr None)))"

section \<open>The selector\<close>

subsection \<open>More Python values\<close>

text \<open>
  \<^verbatim>\<open>str.strip()\<close> with no argument, \<^verbatim>\<open>str.isdigit()\<close> and \<^verbatim>\<open>int(s)\<close> of a string, on
  code points below 256. \<^verbatim>\<open>isdigit\<close> also holds of the superscripts two, three and one
  (\<^verbatim>\<open>0xB2\<close>, \<^verbatim>\<open>0xB3\<close>, \<^verbatim>\<open>0xB9\<close>), which \<^verbatim>\<open>int\<close> refuses. \<^verbatim>\<open>int\<close> strips white space, takes
  one sign, and takes decimal digits with single underscores between them.
\<close>

definition is_space :: "char \<Rightarrow> bool" where
  "is_space c =
     (c \<in> set [CHR 0x09, CHR 0x0A, CHR 0x0B, CHR 0x0C, CHR 0x0D, CHR 0x1C, CHR 0x1D,
               CHR 0x1E, CHR 0x1F, CHR 0x20, CHR 0x85, CHR 0xA0])"

definition strip :: "string \<Rightarrow> string" where
  "strip s = rev (dropWhile is_space (rev (dropWhile is_space s)))"

definition is_ascii_digit :: "char \<Rightarrow> bool" where
  "is_ascii_digit c = (c \<in> set ''0123456789'')"

definition isdigit :: "string \<Rightarrow> bool" where
  "isdigit s =
     (s \<noteq> [] \<and> list_all (\<lambda>c. is_ascii_digit c \<or> c \<in> set [CHR 0xB2, CHR 0xB3, CHR 0xB9]) s)"

definition digit_val :: "char \<Rightarrow> nat" where
  "digit_val c = of_char c - 48"

fun int_digits :: "nat \<Rightarrow> bool \<Rightarrow> string \<Rightarrow> nat option" where
  "int_digits acc after_digit [] = (if after_digit then Some acc else None)"
| "int_digits acc after_digit (c # cs) =
     (if is_ascii_digit c then int_digits (10 * acc + digit_val c) True cs
      else if c = CHR ''_'' \<and> after_digit then int_digits acc False cs
      else None)"

definition py_int :: "string \<Rightarrow> py_error + int" where
  "py_int s =
     (case strip s of
        [] \<Rightarrow> Inl ValueError
      | c # cs \<Rightarrow>
          if c = CHR ''-'' then
            (case int_digits 0 False cs of None \<Rightarrow> Inl ValueError | Some n \<Rightarrow> Inr (- int n))
          else if c = CHR ''+'' then
            (case int_digits 0 False cs of None \<Rightarrow> Inl ValueError | Some n \<Rightarrow> Inr (int n))
          else
            (case int_digits 0 False (c # cs) of None \<Rightarrow> Inl ValueError | Some n \<Rightarrow> Inr (int n)))"

text \<open>\<^verbatim>\<open>str(i)\<close> of a natural number, and \<^verbatim>\<open>s.split(":")[-1]\<close>.\<close>

fun show_nat :: "nat \<Rightarrow> string" where
  "show_nat n =
     (if n < 10 then [''0123456789'' ! n]
      else show_nat (n div 10) @ [''0123456789'' ! (n mod 10)])"

declare show_nat.simps [simp del]

definition last_field :: "string \<Rightarrow> string" where
  "last_field s = rev (takeWhile (\<lambda>c. c \<noteq> CHR '':'') (rev s))"

text \<open>
  What \<^verbatim>\<open>json.load\<close> returns, which is also what the selector holds in \<^verbatim>\<open>sel_temp\<close> and
  \<^verbatim>\<open>sel_fan\<close>: \<open>JNull\<close> is \<^verbatim>\<open>None\<close>, \<open>JObj\<close> a dictionary as the list of its items.
\<close>

datatype json =
    JNull
  | JBool bool
  | JInt int
  | JFloat real
  | JStr string
  | JArr "json list"
  | JObj "(string \<times> json) list"

text \<open>Truth value of a Python object, and \<^verbatim>\<open>x or None\<close>.\<close>

fun truthy :: "json \<Rightarrow> bool" where
  "truthy JNull = False"
| "truthy (JBool b) = b"
| "truthy (JInt i) = (i \<noteq> 0)"
| "truthy (JFloat x) = (x \<noteq> 0)"
| "truthy (JStr s) = (s \<noteq> [])"
| "truthy (JArr xs) = (xs \<noteq> [])"
| "truthy (JObj kvs) = (kvs \<noteq> [])"

definition or_none :: "json \<Rightarrow> json" where
  "or_none v = (if truthy v then v else JNull)"

text \<open>
  \<^verbatim>\<open>v.get(k)\<close> and \<^verbatim>\<open>v[k]\<close> for a string \<open>k\<close>, and \<^verbatim>\<open>v.split(":")[-1]\<close>: only a dictionary has
  \<^verbatim>\<open>get\<close>, only a dictionary is indexed by a string, only a string has \<^verbatim>\<open>split\<close>.
\<close>

definition dict_get :: "(string \<times> json) list \<Rightarrow> string \<Rightarrow> json" where
  "dict_get kvs k = (case map_of kvs k of None \<Rightarrow> JNull | Some x \<Rightarrow> x)"

definition py_get :: "json \<Rightarrow> string \<Rightarrow> py_error + json" where
  "py_get v k = (case v of JObj kvs \<Rightarrow> Inr (dict_get kvs k) | _ \<Rightarrow> Inl AttributeError)"

definition subscript :: "json \<Rightarrow> string \<Rightarrow> py_error + json" where
  "subscript v k =
     (case v of
        JObj kvs \<Rightarrow> (case map_of kvs k of None \<Rightarrow> Inl KeyError | Some x \<Rightarrow> Inr x)
      | _ \<Rightarrow> Inl TypeError)"

definition split_last :: "json \<Rightarrow> py_error + string" where
  "split_last v = (case v of JStr s \<Rightarrow> Inr (last_field s) | _ \<Rightarrow> Inl AttributeError)"

text \<open>A candidate as the dictionary it is, and \<^verbatim>\<open>None\<close> or a candidate.\<close>

definition cand_json :: "candidate \<Rightarrow> json" where
  "cand_json c =
     JObj [(''type'', JStr (c_type c)), (''id'', JStr (c_id c)), (''name'', JStr (c_name c)),
           (''value'', (case c_value c of None \<Rightarrow> JNull | Some v \<Rightarrow> JFloat v))]"

definition sel_json :: "candidate option \<Rightarrow> json" where
  "sel_json p = (case p of None \<Rightarrow> JNull | Some c \<Rightarrow> cand_json c)"

subsection \<open>The selector and its surroundings\<close>

text \<open>
  The file at \<^verbatim>\<open>config_path\<close> is absent (\<open>None\<close>), or holds text that \<^verbatim>\<open>json.load\<close> turns
  into a value (\<open>Document\<close>), or text on which opening or parsing raises (\<open>Malformed\<close>).
  \<^verbatim>\<open>json.dump\<close> followed by \<^verbatim>\<open>json.load\<close> gives the value back, so a written file is the
  \<open>Document\<close> of the value written.
\<close>

datatype file_content = Malformed | Document json

text \<open>
  What the selection procedure does, in order, kept as a log: \<open>ListTemp\<close> and \<open>ListFan\<close> for a
  call of \<^verbatim>\<open>list_temp_candidates\<close> and \<^verbatim>\<open>list_fan_candidates\<close>, \<open>Prompt\<close> for an \<^verbatim>\<open>input\<close>
  loop that is entered, \<open>PickTemp\<close> and \<open>PickFan\<close> for a call of \<^verbatim>\<open>_auto_pick_temp\<close> and
  \<^verbatim>\<open>_auto_pick_fan\<close>, \<open>SaveConfig\<close> for a call of \<^verbatim>\<open>_save_config\<close>.
\<close>

datatype event = ListTemp | ListFan | Prompt | PickTemp | PickFan | SaveConfig

text \<open>
  The two fields of \<^verbatim>\<open>SensorSelector\<close> that change, with the file at \<^verbatim>\<open>config_path\<close>, the
  lines still to be read on standard input, and the log.
\<close>

record selector =
  sel_temp :: json
  sel_fan :: json
  config_file :: "file_content option"
  stdin :: "string list"
  events :: "event list"

text \<open>
  The records of the OS management interface: \<^verbatim>\<open>MSAcpi_ThermalZoneTemperature\<close> with
  \<^verbatim>\<open>CurrentTemperature\<close>, \<^verbatim>\<open>Temperature\<close> (tenths of a kelvin) and \<^verbatim>\<open>InstanceName\<close>;
  \<^verbatim>\<open>Win32_Fan\<close> with \<^verbatim>\<open>Speed\<close>, \<^verbatim>\<open>DesiredSpeed\<close> and the text of \<^verbatim>\<open>Name\<close> and
  \<^verbatim>\<open>DeviceID\<close>.
\<close>

record thermal_zone =
  tz_current :: "int option"
  tz_temperature :: "int option"
  tz_instance :: string

record fan_record =
  fan_speed :: "int option"
  fan_desired :: "int option"
  fan_name :: string
  fan_device :: string

text \<open>
  What the selector reads and does not change: \<^verbatim>\<open>self.lhm\<close>; whether \<^verbatim>\<open>wmi_module\<close> is
  there on Windows; the records the two queries return now (\<open>None\<close> when the query raises);
  whether standard input is a terminal; whether the file can be opened for writing; the
  text of the clock.
\<close>

record env =
  lhm :: "reader option"
  wmi_ok :: bool
  wmi_thermal :: "thermal_zone list option"
  wmi_fans :: "fan_record list option"
  is_tty :: bool
  writable :: bool
  now :: string

subsection \<open>Enumeration\<close>

text \<open>\<^verbatim>\<open>walk\<close>: a node, then its sub-hardware, depth first.\<close>

fun walk :: "hardware \<Rightarrow> hardware list" where
  "walk (Hardware t n ss subs) = Hardware t n ss subs # concat (map walk subs)"

definition iter_lhm_sensors_recursive :: "reader option \<Rightarrow> (hardware \<times> sensor) list" where
  "iter_lhm_sensors_recursive l =
     (case l of
        None \<Rightarrow> []
      | Some r \<Rightarrow>
          if \<not> ok r then []
          else (case comp r of
                  None \<Rightarrow> []
                | Some hws \<Rightarrow>
                    concat (map (\<lambda>node. map (\<lambda>s. (node, s)) (hw_sensors node))
                                (concat (map walk hws)))))"

definition lhm_candidate :: "hardware \<Rightarrow> sensor \<Rightarrow> candidate" where
  "lhm_candidate hw s =
     \<lparr>c_type = ''LHM'', c_id = s_ident s,
      c_name = ''LHM | '' @ hw_type hw @ '' | '' @ hw_name hw @ '' | '' @ s_name s,
      c_value = s_value s\<rparr>"

definition wmi_temp_candidate :: "nat \<times> thermal_zone \<Rightarrow> candidate" where
  "wmi_temp_candidate p =
     (case p of (i, it) \<Rightarrow>
        let t = (case tz_current it of None \<Rightarrow> tz_temperature it | Some x \<Rightarrow> Some x);
            val = (case t of None \<Rightarrow> None | Some x \<Rightarrow> Some (real_of_int x / 10.0 - 273.15))
        in \<lparr>c_type = ''WMI_ACPI'', c_id = ''WMI:ACPI:'' @ show_nat i,
            c_name = ''WMI | ACPI ThermalZone | idx='' @ show_nat i @ '' | '' @ tz_instance it,
            c_value = val\<rparr>)"

definition list_temp_candidates :: "env \<Rightarrow> candidate list" where
  "list_temp_candidates e =
     map (\<lambda>(hw, s). lhm_candidate hw s)
         (filter (\<lambda>(hw, s). s_type s = ''Temperature'') (iter_lhm_sensors_recursive (lhm e)))
     @ (if wmi_ok e then
          (case wmi_thermal e of
             None \<Rightarrow> []
           | Some items \<Rightarrow> map wmi_temp_candidate (enumerate 0 items))
        else [])"

definition wmi_fan_candidate :: "nat \<times> fan_record \<Rightarrow> candidate" where
  "wmi_fan_candidate p =
     (case p of (i, it) \<Rightarrow>
        let sp = (case fan_speed it of None \<Rightarrow> fan_desired it | Some x \<Rightarrow> Some x);
            val = (case sp of None \<Rightarrow> None | Some x \<Rightarrow> Some (real_of_int x))
        in \<lparr>c_type = ''WMI_FAN'', c_id = ''WMI:FAN:'' @ show_nat i,
            c_name = ''WMI | Win32_Fan | idx='' @ show_nat i @ '' | '' @ fan_name it @ '' '' @ fan_device it,
            c_value = val\<rparr>)"

definition list_fan_candidates :: "env \<Rightarrow> candidate list" where
  "list_fan_candidates e =
     map (\<lambda>(hw, s). lhm_candidate hw s)
         (filter (\<lambda>(hw, s). s_type s = ''Fan'') (iter_lhm_sensors_recursive (lhm e)))
     @ (if wmi_ok e then
          (case wmi_fans e of
             None \<Rightarrow> []
           | Some items \<Rightarrow> map wmi_fan_candidate (enumerate 0 items))
        else [])"

subsection \<open>\<^verbatim>\<open>_save_config\<close> and \<^verbatim>\<open>_load_config\<close>\<close>

text \<open>
  Writing fails where \<^verbatim>\<open>open\<close> raises; the exception is logged and the file is as before.
\<close>

definition save_config :: "env \<Rightarrow> selector \<Rightarrow> selector" where
  "save_config e st =
     (let cfg = JObj [(''temp_source'', sel_temp st), (''fan_source'', sel_fan st),
                      (''created_at'', JStr (now e))]
      in if writable e
         then st\<lparr>config_file := Some (Document cfg), events := events st @ [SaveConfig]\<rparr>
         else st\<lparr>events := events st @ [SaveConfig]\<rparr>)"

text \<open>
  \<^verbatim>\<open>json.load\<close> on the open file: the value, or the exception on text that does not parse
  (\<^verbatim>\<open>JSONDecodeError\<close> and \<^verbatim>\<open>UnicodeDecodeError\<close> are kinds of \<^verbatim>\<open>ValueError\<close>).
\<close>

definition json_load :: "file_content \<Rightarrow> py_error + json" where
  "json_load f = (case f of Malformed \<Rightarrow> Inl ValueError | Document v \<Rightarrow> Inr v)"

text \<open>
  The body of the \<^verbatim>\<open>try\<close> of \<^verbatim>\<open>_load_config\<close>, with the exception that leaves it, if any;
  then the function, whose \<^verbatim>\<open>except Exception\<close> logs the exception and returns \<^verbatim>\<open>False\<close>.
\<close>

definition load_try :: "file_content \<Rightarrow> selector \<Rightarrow> py_error option \<times> selector" where
  "load_try f st =
     (case json_load f of
        Inl err \<Rightarrow> (Some err, st)
      | Inr cfg \<Rightarrow>
          (case py_get cfg ''temp_source'' of
             Inl err \<Rightarrow> (Some err, st)
           | Inr t \<Rightarrow>
               (let st1 = st\<lparr>sel_temp := or_none t\<rparr> in
                case py_get cfg ''fan_source'' of
                  Inl err \<Rightarrow> (Some err, st1)
                | Inr f \<Rightarrow> (None, st1\<lparr>sel_fan := or_none f\<rparr>))))"

definition load_config :: "selector \<Rightarrow> bool \<times> selector" where
  "load_config st =
     (case config_file st of
        None \<Rightarrow> (False, st)
      | Some f \<Rightarrow>
          (case load_try f st of
             (None, st1) \<Rightarrow> (True, st1)
           | (Some err, st1) \<Rightarrow> (False, st1)))"

subsection \<open>\<^verbatim>\<open>ensure_selection\<close>\<close>

text \<open>
  The \<^verbatim>\<open>while True\<close> loop on \<^verbatim>\<open>input\<close>, over the lines still to be read: the index chosen,
  or \<open>None\<close> on an empty line; \<^verbatim>\<open>EOFError\<close> when the lines run out, \<^verbatim>\<open>ValueError\<close> where
  \<^verbatim>\<open>int\<close> raises. With it the lines that are left.
\<close>

fun ask_index :: "nat \<Rightarrow> string list \<Rightarrow> (py_error + nat option) \<times> string list" where
  "ask_index n [] = (Inl EOFError, [])"
| "ask_index n (line # rest) =
     (let tin = strip line in
      if tin = [] then (Inr None, rest)
      else if isdigit tin then
        (case py_int tin of
           Inl err \<Rightarrow> (Inl err, rest)
         | Inr k \<Rightarrow>
             if 0 \<le> k \<and> k < int n then (Inr (Some (nat k)), rest)
             else ask_index n rest)
      else ask_index n rest)"

text \<open>The block \<^verbatim>\<open>if is_tty and cands: while True: ...\<close>: the candidate the operator chose.\<close>

definition operator_choice :: "bool \<Rightarrow> candidate list \<Rightarrow> selector \<Rightarrow> (py_error + candidate option) \<times> selector" where
  "operator_choice tty cands st =
     (if tty \<and> cands \<noteq> [] then
        (case ask_index (length cands) (stdin st) of (res, rest) \<Rightarrow>
           let st1 = st\<lparr>stdin := rest, events := events st @ [Prompt]\<rparr> in
           (case res of
              Inl err \<Rightarrow> (Inl err, st1)
            | Inr None \<Rightarrow> (Inr None, st1)
            | Inr (Some i) \<Rightarrow> (Inr (Some (cands ! i)), st1)))
      else (Inr None, st))"

text \<open>Step 1 (temperature) and step 2 (fan) of the procedure; \<open>Some err\<close> when \<open>err\<close> is raised.\<close>

definition select_temp :: "env \<Rightarrow> selector \<Rightarrow> py_error option \<times> selector" where
  "select_temp e st =
     (let temps = list_temp_candidates e;
          st1 = st\<lparr>events := events st @ [ListTemp], sel_temp := JNull\<rparr>
      in case operator_choice (is_tty e) temps st1 of
           (Inl err, st2) \<Rightarrow> (Some err, st2)
         | (Inr (Some c), st2) \<Rightarrow> (None, st2\<lparr>sel_temp := cand_json c\<rparr>)
         | (Inr None, st2) \<Rightarrow>
             (let st3 = st2\<lparr>events := events st2 @ [PickTemp]\<rparr> in
              case auto_pick_temp temps of
                Inl err \<Rightarrow> (Some err, st3)
              | Inr p \<Rightarrow> (None, st3\<lparr>sel_temp := sel_json p\<rparr>)))"

definition select_fan :: "env \<Rightarrow> selector \<Rightarrow> py_error option \<times> selector" where
  "select_fan e st =
     (let fans = list_fan_candidates e;
          st1 = st\<lparr>events := events st @ [ListFan], sel_fan := JNull\<rparr>
      in case operator_choice (is_tty e) fans st1 of
           (Inl err, st2) \<Rightarrow> (Some err, st2)
         | (Inr (Some c), st2) \<Rightarrow> (None, st2\<lparr>sel_fan := cand_json c\<rparr>)
         | (Inr None, st2) \<Rightarrow>
             (let st3 = st2\<lparr>events := events st2 @ [PickFan]\<rparr> in
              case auto_pick_fan fans of
                Inl err \<Rightarrow> (Some err, st3)
              | Inr p \<Rightarrow> (None, st3\<lparr>sel_fan := sel_json p\<rparr>)))"

definition ensure_selection :: "env \<Rightarrow> selector \<Rightarrow> py_error option \<times> selector" where
  "ensure_selection e st0 =
     (case load_config st0 of
        (True, st) \<Rightarrow> (None, st)
      | (False, st) \<Rightarrow>
          (case select_temp e st of
             (Some err, st1) \<Rightarrow> (Some err, st1)
           | (None, st1) \<Rightarrow>
               (case select_fan e st1 of
                  (Some err, st2) \<Rightarrow> (Some err, st2)
                | (None, st2) \<Rightarrow> (None, save_config e st2))))"

subsection \<open>\<^verbatim>\<open>read_temp_c\<close> and \<^verbatim>\<open>read_fan_rpm\<close>\<close>

text \<open>\<^verbatim>\<open>_read_lhm_by_id\<close>: the value of the first sensor whose identifier equals \<open>ident\<close>.\<close>

definition read_lhm_by_id :: "reader option \<Rightarrow> json \<Rightarrow> real option" where
  "read_lhm_by_id l ident =
     (case filter (\<lambda>(hw, s). JStr (s_ident s) = ident) (iter_lhm_sensors_recursive l) of
        [] \<Rightarrow> None
      | (hw, s) # rest \<Rightarrow> s_value s)"

text \<open>
  The body of the \<^verbatim>\<open>try\<close> of \<^verbatim>\<open>read_temp_c\<close>, an exception on the left; then the function,
  where \<^verbatim>\<open>except Exception\<close> returns \<^verbatim>\<open>None\<close>.
\<close>

definition read_temp_body :: "env \<Rightarrow> json \<Rightarrow> py_error + real option" where
  "read_temp_body e sel =
     (case subscript sel ''type'' of
        Inl err \<Rightarrow> Inl err
      | Inr ty \<Rightarrow>
          if ty = JStr ''LHM'' then
            (case subscript sel ''id'' of
               Inl err \<Rightarrow> Inl err
             | Inr ident \<Rightarrow> Inr (read_lhm_by_id (lhm e) ident))
          else if ty = JStr ''WMI_ACPI'' \<and> wmi_ok e then
            (case subscript sel ''id'' of
               Inl err \<Rightarrow> Inl err
             | Inr ident \<Rightarrow>
                 (case split_last ident of
                    Inl err \<Rightarrow> Inl err
                  | Inr field \<Rightarrow>
                      (case py_int field of
                         Inl err \<Rightarrow> Inl err
                       | Inr idx \<Rightarrow>
                           (case wmi_thermal e of
                              None \<Rightarrow> Inl WmiError
                            | Some items \<Rightarrow>
                                if 0 \<le> idx \<and> idx < int (length items) then
                                  (let it = items ! nat idx;
                                       t = (case tz_current it of None \<Rightarrow> tz_temperature it
                                            | Some x \<Rightarrow> Some x)
                                   in case t of
                                        None \<Rightarrow> Inr None
                                      | Some x \<Rightarrow> Inr (Some (real_of_int x / 10.0 - 273.15)))
                                else Inr None))))
          else Inr None)"

definition read_temp_c :: "env \<Rightarrow> selector \<Rightarrow> real option" where
  "read_temp_c e st =
     (if sel_temp st = JNull then None
      else case read_temp_body e (sel_temp st) of Inl err \<Rightarrow> None | Inr v \<Rightarrow> v)"

definition read_fan_body :: "env \<Rightarrow> json \<Rightarrow> py_error + real option" where
  "read_fan_body e sel =
     (case subscript sel ''type'' of
        Inl err \<Rightarrow> Inl err
      | Inr ty \<Rightarrow>
          if ty = JStr ''LHM'' then
            (case subscript sel ''id'' of
               Inl err \<Rightarrow> Inl err
             | Inr ident \<Rightarrow> Inr (read_lhm_by_id (lhm e) ident))
          else if ty = JStr ''WMI_FAN'' \<and> wmi_ok e then
            (case subscript sel ''id'' of
               Inl err \<Rightarrow> Inl err
             | Inr ident \<Rightarrow>
                 (case split_last ident of
                    Inl err \<Rightarrow> Inl err
                  | Inr field \<Rightarrow>
                      (case py_int field of
                         Inl err \<Rightarrow> Inl err
                       | Inr idx \<Rightarrow>
                           (case wmi_fans e of
                              None \<Rightarrow> Inl WmiError
                            | Some items \<Rightarrow>
                                if 0 \<le> idx \<and> idx < int (length items) then
                                  (let it = items ! nat idx;
                                       sp = (case fan_speed it of None \<Rightarrow> fan_desired it
                                             | Some x \<Rightarrow> Some x)
                                   in case sp of
                                        None \<Rightarrow> Inr None
                                      | Some x \<Rightarrow> Inr (Some (real_of_int x)))
                                else Inr None))))
          else Inr None)"

definition read_fan_rpm :: "env \<Rightarrow> selector \<Rightarrow> real option" where
  "read_fan_rpm e st =
     (if sel_fan st = JNull then None
      else case read_fan_body e (sel_fan st) of Inl err \<Rightarrow> None | Inr v \<Rightarrow> v)"

section \<open>The statements to check, in the words of the specification\<close>

subsection \<open>GPU memory\<close>

text \<open>
  A GPU node is a top-level node whose type name contains \<^verbatim>\<open>Gpu\<close>. A sensor gives a reading
  when it is a small-data sensor with a value; it counts under the first of the three names
  that its lowered name contains. A node's reading of a kind is its last such sensor's value.
\<close>

datatype gpu_reading = MemUsed | MemTotal | D3DUsed

definition is_gpu :: "hardware \<Rightarrow> bool" where
  "is_gpu hw = str_contains ''Gpu'' (hw_type hw)"

definition reading_kind :: "sensor \<Rightarrow> gpu_reading option" where
  "reading_kind s =
     (let name = lower (s_name s) in
      if \<not> (str_contains ''smalldata'' (lower (s_ident s)) \<or> lower (s_type s) = ''smalldata'')
      then None
      else if s_value s = None then None
      else if str_contains ''gpu memory used'' name then Some MemUsed
      else if str_contains ''gpu memory total'' name then Some MemTotal
      else if str_contains ''d3d dedicated memory used'' name then Some D3DUsed
      else None)"

definition last_reading :: "gpu_reading \<Rightarrow> sensor list \<Rightarrow> real option" where
  "last_reading k ss =
     (let ys = filter (\<lambda>s. reading_kind s = Some k) ss
      in if ys = [] then None else s_value (last ys))"

definition node_reading :: "gpu_reading \<Rightarrow> hardware \<Rightarrow> real option" where
  "node_reading k hw = last_reading k (hw_sensors hw)"

text \<open>A node's used value: the paired sensor's, or failing that the dedicated-memory one's.\<close>

definition node_used_mb :: "hardware \<Rightarrow> real option" where
  "node_used_mb hw =
     (case node_reading MemUsed hw of Some v \<Rightarrow> Some v | None \<Rightarrow> node_reading D3DUsed hw)"

definition mb_to_bytes :: "real option \<Rightarrow> real" where
  "mb_to_bytes v = (case v of None \<Rightarrow> 0 | Some x \<Rightarrow> x * 1000000)"

text \<open>The sums over the GPU nodes, absent when no GPU node has a reading.\<close>

definition spec_gpu_mem :: "hardware list \<Rightarrow> int option \<times> int option" where
  "spec_gpu_mem hws =
     (let gpus = filter is_gpu hws;
          used = sum_list (map (\<lambda>hw. mb_to_bytes (node_used_mb hw)) gpus);
          tot = sum_list (map (\<lambda>hw. mb_to_bytes (node_reading MemTotal hw)) gpus)
      in if list_all (\<lambda>hw. node_used_mb hw = None \<and> node_reading MemTotal hw = None) gpus
         then (None, None)
         else (Some (if 0 \<le> used then py_trunc used else 0),
               if 0 < tot then Some (py_trunc tot) else None))"

text \<open>Two GPU nodes reporting 1000 MB of 2000 MB and 500 MB of 1000 MB.\<close>

definition gpu_example :: "hardware list" where
  "gpu_example =
     [Hardware ''GpuNvidia'' ''NVIDIA GeForce RTX 3080''
        [\<lparr>s_type = ''SmallData'', s_name = ''GPU Memory Used'',
          s_ident = ''/gpu-nvidia/0/smalldata/1'', s_value = Some 1000\<rparr>,
         \<lparr>s_type = ''SmallData'', s_name = ''GPU Memory Total'',
          s_ident = ''/gpu-nvidia/0/smalldata/2'', s_value = Some 2000\<rparr>] [],
      Hardware ''GpuAmd'' ''Radeon RX 6600''
        [\<lparr>s_type = ''SmallData'', s_name = ''GPU Memory Used'',
          s_ident = ''/gpu-amd/0/smalldata/0'', s_value = Some 500\<rparr>,
         \<lparr>s_type = ''SmallData'', s_name = ''GPU Memory Total'',
          s_ident = ''/gpu-amd/0/smalldata/1'', s_value = Some 1000\<rparr>] []]"

text \<open>One GPU node with the dedicated-memory sensor and the total, and no paired used sensor.\<close>

definition gpu_fallback_example :: "hardware list" where
  "gpu_fallback_example =
     [Hardware ''GpuIntel'' ''Intel UHD Graphics 770''
        [\<lparr>s_type = ''SmallData'', s_name = ''D3D Dedicated Memory Used'',
          s_ident = ''/gpu-intel-integrated/0/smalldata/0'', s_value = Some 256\<rparr>,
         \<lparr>s_type = ''SmallData'', s_name = ''GPU Memory Total'',
          s_ident = ''/gpu-intel-integrated/0/smalldata/2'', s_value = Some 512\<rparr>] []]"

text \<open>A GPU node with one sensor only: the used one, or the total one.\<close>

definition only_used_gpu :: "string \<Rightarrow> real \<Rightarrow> hardware" where
  "only_used_gpu ident u =
     Hardware ''GpuNvidia'' ''GPU''
       [\<lparr>s_type = ''SmallData'', s_name = ''GPU Memory Used'', s_ident = ident, s_value = Some u\<rparr>] []"

definition only_total_gpu :: "string \<Rightarrow> real \<Rightarrow> hardware" where
  "only_total_gpu ident t =
     Hardware ''GpuNvidia'' ''GPU''
       [\<lparr>s_type = ''SmallData'', s_name = ''GPU Memory Total'', s_ident = ident, s_value = Some t\<rparr>] []"

subsection \<open>CPU effective frequency\<close>

text \<open>
  The claim's reading: the mean of the values of all clock sensors of CPU nodes whose name
  contains \<^verbatim>\<open>effective\<close> (\<open>spec_cpu_effective_freq\<close>); and what the loop counts: the
  positive values of the clock sensors whose lowered name contains \<^verbatim>\<open>effective\<close> or starts
  with \<^verbatim>\<open>core #\<close> (\<open>counted_clock_values\<close>).
\<close>

definition mean :: "real list \<Rightarrow> real option" where
  "mean vs = (if vs = [] then None else Some (sum_list vs / real (length vs)))"

definition is_cpu :: "hardware \<Rightarrow> bool" where
  "is_cpu hw = (hw_type hw = ''Cpu'')"

definition effective_clock_value :: "sensor \<Rightarrow> real option" where
  "effective_clock_value s =
     (if lower (s_type s) = ''clock'' \<and> str_contains ''effective'' (lower (s_name s))
      then s_value s else None)"

definition spec_cpu_effective_freq :: "hardware list \<Rightarrow> real option" where
  "spec_cpu_effective_freq hws =
     mean (concat (map (\<lambda>hw. List.map_filter effective_clock_value (hw_sensors hw)) (filter is_cpu hws)))"

definition counted_clock_value :: "sensor \<Rightarrow> real option" where
  "counted_clock_value s =
     (if lower (s_type s) = ''clock'' \<and>
         (str_contains ''effective'' (lower (s_name s)) \<or> startswith (lower (s_name s)) ''core #'')
      then (case s_value s of Some v \<Rightarrow> if 0 < v then Some v else None | None \<Rightarrow> None)
      else None)"

definition counted_clock_values :: "hardware list \<Rightarrow> real list" where
  "counted_clock_values hws =
     concat (map (\<lambda>hw. List.map_filter counted_clock_value (hw_sensors hw)) (filter is_cpu hws))"

definition clock_sensor :: "string \<Rightarrow> real \<Rightarrow> sensor" where
  "clock_sensor name v = \<lparr>s_type = ''Clock'', s_name = name, s_ident = ''/intelcpu/0/clock/'' @ name, s_value = Some v\<rparr>"

definition freq_example :: "hardware list" where
  "freq_example =
     [Hardware ''Cpu'' ''Intel Core i7-9700K''
        [clock_sensor ''Core #1 (Effective)'' 3000, clock_sensor ''Core #2 (Effective)'' 0] []]"

definition freq_example2 :: "hardware list" where
  "freq_example2 =
     [Hardware ''Cpu'' ''Intel Core i7-9700K''
        [clock_sensor ''Core #1 (Effective)'' 3000, clock_sensor ''Core #1'' 4000] []]"

subsection \<open>Network and disk throughput\<close>

text \<open>
  What one sensor adds to its node's two sums (\<open>nic_upload\<close>, \<open>nic_download\<close>,
  \<open>storage_read\<close>, \<open>storage_write\<close>), and the result over the active nodes
  (\<open>active_sums\<close>): the nodes selected by \<open>sel\<close> of which one of the two sums is positive.
\<close>

definition value_or_zero :: "sensor \<Rightarrow> real" where
  "value_or_zero s = (case s_value s of Some v \<Rightarrow> v | None \<Rightarrow> 0)"

definition nic_upload :: "sensor \<Rightarrow> real" where
  "nic_upload s =
     (if lower (s_type s) = ''throughput'' \<and> str_contains ''upload'' (lower (s_name s))
      then value_or_zero s else 0)"

definition nic_download :: "sensor \<Rightarrow> real" where
  "nic_download s =
     (if lower (s_type s) = ''throughput'' \<and> \<not> str_contains ''upload'' (lower (s_name s)) \<and>
         str_contains ''download'' (lower (s_name s))
      then value_or_zero s else 0)"

definition is_read_rate :: "string \<Rightarrow> bool" where
  "is_read_rate name = (str_contains ''read rate'' name \<or> (str_contains ''read'' name \<and> str_contains ''rate'' name))"

definition is_write_rate :: "string \<Rightarrow> bool" where
  "is_write_rate name = (str_contains ''write rate'' name \<or> (str_contains ''write'' name \<and> str_contains ''rate'' name))"

definition storage_read :: "sensor \<Rightarrow> real" where
  "storage_read s =
     (if lower (s_type s) = ''throughput'' \<and> is_read_rate (lower (s_name s))
      then value_or_zero s else 0)"

definition storage_write :: "sensor \<Rightarrow> real" where
  "storage_write s =
     (if lower (s_type s) = ''throughput'' \<and> \<not> is_read_rate (lower (s_name s)) \<and>
         is_write_rate (lower (s_name s))
      then value_or_zero s else 0)"

definition active_sums ::
  "(hardware \<Rightarrow> bool) \<Rightarrow> (hardware \<Rightarrow> real \<times> real) \<Rightarrow> hardware list \<Rightarrow> int option \<times> int option"
where
  "active_sums sel loc hws =
     (let act = filter (\<lambda>hw. sel hw \<and> (0 < fst (loc hw) \<or> 0 < snd (loc hw))) hws
      in if act = [] then (None, None)
         else (Some (py_trunc (sum_list (map (\<lambda>hw. fst (loc hw)) act) * 8)),
               Some (py_trunc (sum_list (map (\<lambda>hw. snd (loc hw)) act) * 8))))"

text \<open>
  The claim's reading: absent only when no contributing sensor was found, a sensor that
  reports zero adding zero.
\<close>

definition nic_contributing :: "hardware list \<Rightarrow> sensor list" where
  "nic_contributing hws =
     concat (map (\<lambda>hw. filter (\<lambda>s. lower (s_type s) = ''throughput'' \<and> s_value s \<noteq> None \<and>
                                  (str_contains ''upload'' (lower (s_name s)) \<or>
                                   str_contains ''download'' (lower (s_name s))))
                          (hw_sensors hw))
                 (filter (\<lambda>hw. lower (hw_type hw) = ''network'') hws))"

definition spec_nic_up_down :: "hardware list \<Rightarrow> int option \<times> int option" where
  "spec_nic_up_down hws =
     (let ss = nic_contributing hws
      in if ss = [] then (None, None)
         else (Some (py_trunc (sum_list (map nic_upload ss) * 8)),
               Some (py_trunc (sum_list (map nic_download ss) * 8))))"

definition storage_contributing :: "hardware list \<Rightarrow> sensor list" where
  "storage_contributing hws =
     concat (map (\<lambda>hw. filter (\<lambda>s. lower (s_type s) = ''throughput'' \<and> s_value s \<noteq> None \<and>
                                  (is_read_rate (lower (s_name s)) \<or> is_write_rate (lower (s_name s))))
                          (hw_sensors hw))
                 (filter (\<lambda>hw. \<not> storage_skipped hw) hws))"

definition spec_storage_read_write :: "hardware list \<Rightarrow> int option \<times> int option" where
  "spec_storage_read_write hws =
     (let ss = storage_contributing hws
      in if ss = [] then (None, None)
         else (Some (py_trunc (sum_list (map storage_read ss) * 8)),
               Some (py_trunc (sum_list (map storage_write ss) * 8))))"

definition throughput_sensor :: "string \<Rightarrow> real \<Rightarrow> sensor" where
  "throughput_sensor name v =
     \<lparr>s_type = ''Throughput'', s_name = name, s_ident = ''/throughput/'' @ name, s_value = Some v\<rparr>"

definition idle_nic :: "hardware list" where
  "idle_nic =
     [Hardware ''Network'' ''Ethernet''
        [throughput_sensor ''Upload Speed'' 0, throughput_sensor ''Download Speed'' 0] []]"

definition idle_disk :: "hardware list" where
  "idle_disk =
     [Hardware ''Storage'' ''Samsung SSD 970 EVO''
        [throughput_sensor ''Read Rate'' 0, throughput_sensor ''Write Rate'' 0] []]"

definition busy_nic :: "hardware list" where
  "busy_nic =
     [Hardware ''Network'' ''Ethernet''
        [throughput_sensor ''Upload Speed'' 125000, throughput_sensor ''Download Speed'' 0] [],
      Hardware ''Network'' ''Wi-Fi''
        [throughput_sensor ''Upload Speed'' 0, throughput_sensor ''Download Speed'' 0] []]"


definition busy_disk :: "hardware list" where
  "busy_disk =
     [Hardware ''Storage'' ''Samsung SSD 970 EVO''
        [throughput_sensor ''Read Rate'' 0, throughput_sensor ''Write Rate'' 2000] [],
      Hardware ''Storage'' ''WDC WD10EZEX''
        [throughput_sensor ''Read Rate'' 0, throughput_sensor ''Write Rate'' 0] []]"

subsection \<open>The automatic choice\<close>

text \<open>
  The classes of candidates the claims name: by type, by a keyword in the lowered display
  name, and by the value lying in the plausible range. \<open>max_among P cs c\<close>: \<open>c\<close> is a
  candidate of \<open>cs\<close> in class \<open>P\<close>, and every candidate of \<open>cs\<close> in class \<open>P\<close> has a value, at
  most that of \<open>c\<close> (\<open>value_le\<close>).
\<close>

definition name_has :: "string list \<Rightarrow> candidate \<Rightarrow> bool" where
  "name_has keys c = (\<exists>k \<in> set keys. str_contains k (lower (c_name c)))"

definition value_within :: "(real \<Rightarrow> bool) \<Rightarrow> candidate \<Rightarrow> bool" where
  "value_within rng c = (case c_value c of None \<Rightarrow> False | Some v \<Rightarrow> rng v)"

definition temp_range :: "real \<Rightarrow> bool" where
  "temp_range v = (0.5 < v \<and> v < 120)"

definition fan_range :: "real \<Rightarrow> bool" where
  "fan_range v = (1 \<le> v \<and> v < 20000)"

definition value_le :: "candidate \<Rightarrow> candidate \<Rightarrow> bool" where
  "value_le d c =
     (case c_value d of
        None \<Rightarrow> False
      | Some w \<Rightarrow> (case c_value c of None \<Rightarrow> False | Some v \<Rightarrow> w \<le> v))"

definition max_among :: "(candidate \<Rightarrow> bool) \<Rightarrow> candidate list \<Rightarrow> candidate \<Rightarrow> bool" where
  "max_among P cs c = (c \<in> set cs \<and> P c \<and> (\<forall>d \<in> set cs. P d \<longrightarrow> value_le d c))"

definition cpu_temp :: "candidate \<Rightarrow> bool" where
  "cpu_temp c = (c_type c = ''LHM'' \<and> name_has [''package'', ''tctl'', ''tdie'', ''cpu''] c \<and> value_within temp_range c)"

definition acpi_temp :: "candidate \<Rightarrow> bool" where
  "acpi_temp c = (c_type c = ''WMI_ACPI'' \<and> value_within temp_range c)"

definition cpu_fan :: "candidate \<Rightarrow> bool" where
  "cpu_fan c = (c_type c = ''LHM'' \<and> name_has [''cpu'', ''aio'', ''pump''] c \<and> value_within fan_range c)"

definition lhm_fan :: "candidate \<Rightarrow> bool" where
  "lhm_fan c = (c_type c = ''LHM'' \<and> value_within fan_range c)"

definition wmi_fan :: "candidate \<Rightarrow> bool" where
  "wmi_fan c = (c_type c = ''WMI_FAN'' \<and> value_within fan_range c)"

text \<open>Candidate lists to run the choice on.\<close>

definition temp_example :: "candidate list" where
  "temp_example =
     [\<lparr>c_type = ''LHM'', c_id = ''/lpc/nct6798d/temperature/2'',
       c_name = ''LHM | SuperIO | Nuvoton NCT6798D | Auxiliary'', c_value = Some 90\<rparr>,
      \<lparr>c_type = ''LHM'', c_id = ''/intelcpu/0/temperature/1'',
       c_name = ''LHM | Cpu | Intel Core i7-9700K | CPU Core #1'', c_value = Some 45\<rparr>,
      \<lparr>c_type = ''LHM'', c_id = ''/intelcpu/0/temperature/0'',
       c_name = ''LHM | Cpu | Intel Core i7-9700K | CPU Package'', c_value = Some 72\<rparr>,
      \<lparr>c_type = ''LHM'', c_id = ''/amdcpu/0/temperature/7'',
       c_name = ''LHM | SuperIO | ITE IT8688E | Tctl'', c_value = Some 0\<rparr>,
      \<lparr>c_type = ''WMI_ACPI'', c_id = ''WMI:ACPI:0'',
       c_name = ''WMI | ACPI ThermalZone | idx=0 | ACPI.ThermalZone.TZ00_0'', c_value = Some 40\<rparr>]"

definition temp_acpi_example :: "candidate list" where
  "temp_acpi_example =
     [\<lparr>c_type = ''LHM'', c_id = ''/intelcpu/0/temperature/0'',
       c_name = ''LHM | Cpu | Intel Core i7-9700K | CPU Package'', c_value = None\<rparr>,
      \<lparr>c_type = ''LHM'', c_id = ''/lpc/nct6798d/temperature/2'',
       c_name = ''LHM | SuperIO | Nuvoton NCT6798D | Auxiliary'', c_value = Some 90\<rparr>,
      \<lparr>c_type = ''WMI_ACPI'', c_id = ''WMI:ACPI:0'',
       c_name = ''WMI | ACPI ThermalZone | idx=0 | ACPI.ThermalZone.TZ00_0'', c_value = Some 40\<rparr>,
      \<lparr>c_type = ''WMI_ACPI'', c_id = ''WMI:ACPI:1'',
       c_name = ''WMI | ACPI ThermalZone | idx=1 | ACPI.ThermalZone.TZ01_0'', c_value = Some 120\<rparr>]"

definition fan_example :: "candidate list" where
  "fan_example =
     [\<lparr>c_type = ''LHM'', c_id = ''/lpc/nct6798d/fan/1'',
       c_name = ''LHM | SuperIO | Nuvoton NCT6798D | Chassis Fan #1'', c_value = Some 1400\<rparr>,
      \<lparr>c_type = ''LHM'', c_id = ''/lpc/nct6798d/fan/0'',
       c_name = ''LHM | SuperIO | Nuvoton NCT6798D | CPU Fan'', c_value = Some 900\<rparr>,
      \<lparr>c_type = ''LHM'', c_id = ''/lpc/nct6798d/fan/2'',
       c_name = ''LHM | SuperIO | Nuvoton NCT6798D | AIO Pump'', c_value = Some 20000\<rparr>,
      \<lparr>c_type = ''WMI_FAN'', c_id = ''WMI:FAN:0'',
       c_name = ''WMI | Win32_Fan | idx=0 | Cooling Device FAN0'', c_value = Some 3000\<rparr>]"

definition fan_lhm_example :: "candidate list" where
  "fan_lhm_example =
     [\<lparr>c_type = ''LHM'', c_id = ''/lpc/nct6798d/fan/0'',
       c_name = ''LHM | SuperIO | Nuvoton NCT6798D | CPU Fan'', c_value = Some 0\<rparr>,
      \<lparr>c_type = ''LHM'', c_id = ''/lpc/nct6798d/fan/1'',
       c_name = ''LHM | SuperIO | Nuvoton NCT6798D | Fan #2'', c_value = Some 1\<rparr>,
      \<lparr>c_type = ''WMI_FAN'', c_id = ''WMI:FAN:0'',
       c_name = ''WMI | Win32_Fan | idx=0 | Cooling Device FAN0'', c_value = Some 3000\<rparr>]"

definition fan_wmi_example :: "candidate list" where
  "fan_wmi_example =
     [\<lparr>c_type = ''LHM'', c_id = ''/lpc/nct6798d/fan/0'',
       c_name = ''LHM | SuperIO | Nuvoton NCT6798D | CPU Fan'', c_value = Some 0.5\<rparr>,
      \<lparr>c_type = ''WMI_FAN'', c_id = ''WMI:FAN:0'',
       c_name = ''WMI | Win32_Fan | idx=0 | Cooling Device FAN0'', c_value = Some 3000\<rparr>,
      \<lparr>c_type = ''WMI_FAN'', c_id = ''WMI:FAN:1'',
       c_name = ''WMI | Win32_Fan | idx=1 | Cooling Device FAN1'', c_value = None\<rparr>]"

subsection \<open>The selector\<close>

text \<open>
  A machine to run the selector on: a CPU node with a package temperature, a board whose
  SuperIO chip has the CPU fan, one thermal zone at 313.2 K; no terminal, a writable file.
  \<open>fresh f lines\<close> is a selector just constructed, with \<open>f\<close> on disk and \<open>lines\<close> to read.
\<close>

definition cpu_board :: "hardware list" where
  "cpu_board =
     [Hardware ''Cpu'' ''Intel Core i7-9700K''
        [\<lparr>s_type = ''Temperature'', s_name = ''CPU Package'',
          s_ident = ''/intelcpu/0/temperature/0'', s_value = Some 55\<rparr>] [],
      Hardware ''Motherboard'' ''ASUS PRIME Z390-A'' []
        [Hardware ''SuperIO'' ''Nuvoton NCT6798D''
           [\<lparr>s_type = ''Fan'', s_name = ''CPU Fan'',
             s_ident = ''/lpc/nct6798d/fan/0'', s_value = Some 900\<rparr>] []]]"

definition headless_env :: env where
  "headless_env =
     \<lparr>lhm = Some \<lparr>ok = True, comp = Some cpu_board\<rparr>, wmi_ok = True,
      wmi_thermal = Some [\<lparr>tz_current = Some 3132, tz_temperature = None, tz_instance = ''TZ00_0''\<rparr>],
      wmi_fans = Some [], is_tty = False, writable = True, now = ''2024-05-01 12:00:00''\<rparr>"

definition fresh :: "file_content option \<Rightarrow> string list \<Rightarrow> selector" where
  "fresh f lines = \<lparr>sel_temp = JNull, sel_fan = JNull, config_file = f, stdin = lines, events = []\<rparr>"

text \<open>The candidates of that machine, and two others from the OS management interface.\<close>

definition package_candidate :: candidate where
  "package_candidate =
     \<lparr>c_type = ''LHM'', c_id = ''/intelcpu/0/temperature/0'',
      c_name = ''LHM | Cpu | Intel Core i7-9700K | CPU Package'', c_value = Some 55\<rparr>"

definition cpu_fan_candidate :: candidate where
  "cpu_fan_candidate =
     \<lparr>c_type = ''LHM'', c_id = ''/lpc/nct6798d/fan/0'',
      c_name = ''LHM | SuperIO | Nuvoton NCT6798D | CPU Fan'', c_value = Some 900\<rparr>"

definition acpi_candidate :: candidate where
  "acpi_candidate =
     \<lparr>c_type = ''WMI_ACPI'', c_id = ''WMI:ACPI:0'',
      c_name = ''WMI | ACPI ThermalZone | idx=0 | TZ00_0'', c_value = Some 40.05\<rparr>"

definition wmi_fan_candidate2 :: candidate where
  "wmi_fan_candidate2 =
     \<lparr>c_type = ''WMI_FAN'', c_id = ''WMI:FAN:2'',
      c_name = ''WMI | Win32_Fan | idx=2 | Cooling Device FAN2'', c_value = Some 1200\<rparr>"

definition tty_env :: env where
  "tty_env = headless_env\<lparr>is_tty := True\<rparr>"

text \<open>A file written by an earlier run: the package temperature pinned, no fan.\<close>

definition persisted :: json where
  "persisted =
     JObj [(''temp_source'', cand_json package_candidate), (''fan_source'', JNull),
           (''created_at'', JStr ''2024-04-30 09:00:00'')]"

text \<open>
  What a run of the procedure leaves behind when it ends with the selections \<open>t\<close> and \<open>f\<close>:
  the file holds the document of the two selections and the time where it could be written
  and is as before where it could not; the selector holds the two selections, the lines the
  operator has not yet been asked for, and the log of what was done.
\<close>

definition written_file :: "env \<Rightarrow> json \<Rightarrow> json \<Rightarrow> file_content option \<Rightarrow> file_content option" where
  "written_file e t f old =
     (if writable e
      then Some (Document (JObj [(''temp_source'', t), (''fan_source'', f),
                                 (''created_at'', JStr (now e))]))
      else old)"

definition finished :: "env \<Rightarrow> selector \<Rightarrow> json \<Rightarrow> json \<Rightarrow> event list \<Rightarrow> string list \<Rightarrow> selector" where
  "finished e st t f done_log lines =
     st\<lparr>sel_temp := t, sel_fan := f, config_file := written_file e t f (config_file st),
        stdin := lines, events := events st @ done_log\<rparr>"




section \<open>Properties\<close>

subsection \<open>GPU memory: the loops as sums\<close>

lemma py_trunc_nonneg: "0 \<le> x \<Longrightarrow> 0 \<le> py_trunc x"
  by (simp add: py_trunc_def)

lemma last_reading_snoc:
  "last_reading k (ss @ [s]) = (if reading_kind s = Some k then s_value s else last_reading k ss)"
  by (simp add: last_reading_def Let_def)

lemma gpu_sensor_step_kind:
  "gpu_sensor_step (u, t, d) s =
     (case reading_kind s of
        None \<Rightarrow> (u, t, d)
      | Some MemUsed \<Rightarrow> (s_value s, t, d)
      | Some MemTotal \<Rightarrow> (u, s_value s, d)
      | Some D3DUsed \<Rightarrow> (u, t, s_value s))"
  by (auto simp: gpu_sensor_step_def reading_kind_def Let_def split: option.splits)

lemma gpu_sensor_loop:
  "foldl gpu_sensor_step (None, None, None) ss =
     (last_reading MemUsed ss, last_reading MemTotal ss, last_reading D3DUsed ss)"
proof (induction ss rule: rev_induct)
  case Nil
  show ?case by (simp add: last_reading_def)
next
  case (snoc s ss)
  then show ?case
    by (simp add: gpu_sensor_step_kind last_reading_snoc split: option.splits gpu_reading.splits)
qed

lemma gpu_locals_readings: "gpu_locals hw = (node_used_mb hw, node_reading MemTotal hw)"
  by (auto simp: gpu_locals_def gpu_sensor_loop node_used_mb_def node_reading_def
           split: option.splits)

lemma gpu_hw_step_readings:
  "gpu_hw_step (used, tot, has_any) hw =
     (if is_gpu hw
      then (used + mb_to_bytes (node_used_mb hw), tot + mb_to_bytes (node_reading MemTotal hw),
            has_any \<or> node_used_mb hw \<noteq> None \<or> node_reading MemTotal hw \<noteq> None)
      else (used, tot, has_any))"
  by (cases "node_used_mb hw"; cases "node_reading MemTotal hw")
     (simp_all add: gpu_hw_step_def gpu_locals_readings is_gpu_def mb_to_bytes_def)

lemma gpu_hw_loop:
  "foldl gpu_hw_step (used, tot, has_any) hws =
     (used + sum_list (map (\<lambda>hw. mb_to_bytes (node_used_mb hw)) (filter is_gpu hws)),
      tot + sum_list (map (\<lambda>hw. mb_to_bytes (node_reading MemTotal hw)) (filter is_gpu hws)),
      has_any \<or> \<not> list_all (\<lambda>hw. node_used_mb hw = None \<and> node_reading MemTotal hw = None)
                     (filter is_gpu hws))"
proof (induction hws arbitrary: used tot has_any)
  case Nil
  show ?case by simp
next
  case (Cons hw hws)
  show ?case
    by (simp add: Cons.IH gpu_hw_step_readings add.assoc)
qed

lemma no_used_sum:
  "list_all (\<lambda>hw. fst (gpu_locals hw) = None) (filter is_gpu hws) \<Longrightarrow>
   sum_list (map (\<lambda>hw. mb_to_bytes (node_used_mb hw)) (filter is_gpu hws)) = 0"
  by (induction hws) (auto simp: gpu_locals_readings mb_to_bytes_def)

lemma gpu_example_result:
  "gpu_mem_used_total_bytes \<lparr>ok = True, comp = Some gpu_example\<rparr> =
     (Some 1500000000, Some 3000000000)"
  by code_simp

lemma gpu_fallback_example_result:
  "gpu_mem_used_total_bytes \<lparr>ok = True, comp = Some gpu_fallback_example\<rparr> =
     (Some 256000000, Some 512000000)"
  by code_simp

lemma only_used_result:
  "0 \<le> u \<Longrightarrow> gpu_mem_used_total_bytes \<lparr>ok = True, comp = Some [only_used_gpu i u]\<rparr> =
     (Some (py_trunc (u * 1000000)), None)"
  by (simp add: gpu_mem_used_total_bytes_def gpu_accumulate_def gpu_hw_step_def gpu_locals_def
        gpu_sensor_step_def only_used_gpu_def lower_def lower_char_def)

lemma only_total_result:
  "0 < t \<Longrightarrow> gpu_mem_used_total_bytes \<lparr>ok = True, comp = Some [only_total_gpu i t]\<rparr> =
     (Some 0, Some (py_trunc (t * 1000000)))"
  by (simp add: gpu_mem_used_total_bytes_def gpu_accumulate_def gpu_hw_step_def gpu_locals_def
        gpu_sensor_step_def only_total_gpu_def lower_def lower_char_def py_trunc_def)

text \<open>
  C8. With the library open, \<^verbatim>\<open>gpu_mem_used_total_bytes\<close> returns the sums over the GPU nodes
  of the \<^verbatim>\<open>GPU Memory Used\<close> and \<^verbatim>\<open>GPU Memory Total\<close> readings, each times 1,000,000, a node's
  used reading falling back to \<^verbatim>\<open>D3D Dedicated Memory Used\<close> when it has no paired used
  sensor; for the two nodes reporting 1000 MB of 2000 MB and 500 MB of 1000 MB it returns
  1,500,000,000 and 3,000,000,000 bytes.
\<close>

theorem gpu_mem_sums:
  "(ok r \<and> comp r = Some hws \<longrightarrow> gpu_mem_used_total_bytes r = spec_gpu_mem hws) \<and>
   gpu_mem_used_total_bytes \<lparr>ok = True, comp = Some gpu_example\<rparr> =
     (Some 1500000000, Some 3000000000)"
proof -
  have "gpu_mem_used_total_bytes r = spec_gpu_mem hws" if "ok r" "comp r = Some hws"
    using that
    by (simp add: gpu_mem_used_total_bytes_def gpu_accumulate_def gpu_hw_loop spec_gpu_mem_def
          Let_def)
  then show ?thesis
    using gpu_example_result by blast
qed

theorem gpu_mem_sums_witness:
  "spec_gpu_mem gpu_fallback_example = (Some 256000000, Some 512000000) \<and>
   spec_gpu_mem gpu_example = (Some 1500000000, Some 3000000000)"
proof -
  have "spec_gpu_mem gpu_fallback_example =
      gpu_mem_used_total_bytes \<lparr>ok = True, comp = Some gpu_fallback_example\<rparr>"
    using gpu_mem_sums [of "\<lparr>ok = True, comp = Some gpu_fallback_example\<rparr>" gpu_fallback_example]
    by simp
  moreover have "spec_gpu_mem gpu_example =
      gpu_mem_used_total_bytes \<lparr>ok = True, comp = Some gpu_example\<rparr>"
    using gpu_mem_sums [of "\<lparr>ok = True, comp = Some gpu_example\<rparr>" gpu_example]
    by simp
  ultimately show ?thesis
    by (simp add: gpu_fallback_example_result gpu_example_result)
qed

text \<open>
  C10. When the loop of \<^verbatim>\<open>gpu_mem_used_total_bytes\<close> ends with \<^verbatim>\<open>has_any\<close> set, the used
  component is present and not negative, and is 0 when no GPU node had a used value; the
  total component is absent when the accumulated total is not positive, and is its
  truncation otherwise. A single GPU node reporting only a used value \<open>u \<ge> 0\<close> gives
  (used, absent); one reporting only a total \<open>t > 0\<close> gives (0, total).
\<close>

theorem gpu_mem_presence:
  "(ok r \<and> comp r = Some hws \<and> gpu_accumulate hws = (used, tot, True) \<longrightarrow>
      (\<exists>n. fst (gpu_mem_used_total_bytes r) = Some n \<and> 0 \<le> n) \<and>
      (list_all (\<lambda>hw. fst (gpu_locals hw) = None)
           (filter (\<lambda>hw. str_contains ''Gpu'' (hw_type hw)) hws)
         \<longrightarrow> fst (gpu_mem_used_total_bytes r) = Some 0) \<and>
      (tot \<le> 0 \<longrightarrow> snd (gpu_mem_used_total_bytes r) = None) \<and>
      (0 < tot \<longrightarrow> snd (gpu_mem_used_total_bytes r) = Some (py_trunc tot))) \<and>
   (0 \<le> u \<longrightarrow> gpu_mem_used_total_bytes \<lparr>ok = True, comp = Some [only_used_gpu i u]\<rparr> =
      (Some (py_trunc (u * 1000000)), None)) \<and>
   (0 < t \<longrightarrow> gpu_mem_used_total_bytes \<lparr>ok = True, comp = Some [only_total_gpu i t]\<rparr> =
      (Some 0, Some (py_trunc (t * 1000000))))"
proof -
  have general: "(\<exists>n. fst (gpu_mem_used_total_bytes r) = Some n \<and> 0 \<le> n) \<and>
      (list_all (\<lambda>hw. fst (gpu_locals hw) = None)
           (filter (\<lambda>hw. str_contains ''Gpu'' (hw_type hw)) hws)
         \<longrightarrow> fst (gpu_mem_used_total_bytes r) = Some 0) \<and>
      (tot \<le> 0 \<longrightarrow> snd (gpu_mem_used_total_bytes r) = None) \<and>
      (0 < tot \<longrightarrow> snd (gpu_mem_used_total_bytes r) = Some (py_trunc tot))"
    if h: "ok r" "comp r = Some hws" "gpu_accumulate hws = (used, tot, True)"
  proof -
    have res: "gpu_mem_used_total_bytes r =
        (Some (if 0 \<le> used then py_trunc used else 0),
         if 0 < tot then Some (py_trunc tot) else None)"
      using h by (simp add: gpu_mem_used_total_bytes_def)
    have "used = 0"
      if "list_all (\<lambda>hw. fst (gpu_locals hw) = None)
            (filter (\<lambda>hw. str_contains ''Gpu'' (hw_type hw)) hws)"
    proof -
      from that have "list_all (\<lambda>hw. fst (gpu_locals hw) = None) (filter is_gpu hws)"
        by (simp add: is_gpu_def [abs_def])
      then have "sum_list (map (\<lambda>hw. mb_to_bytes (node_used_mb hw)) (filter is_gpu hws)) = 0"
        by (rule no_used_sum)
      with h(3) show ?thesis
        by (simp add: gpu_accumulate_def gpu_hw_loop)
    qed
    then show ?thesis
      using res by (auto simp: py_trunc_nonneg py_trunc_def)
  qed
  show ?thesis
    using general only_used_result [of u i] only_total_result [of t i] by blast
qed

theorem gpu_mem_presence_witness:
  "(\<exists>n. fst (gpu_mem_used_total_bytes \<lparr>ok = True, comp = Some gpu_example\<rparr>) = Some n \<and> 0 \<le> n) \<and>
   snd (gpu_mem_used_total_bytes \<lparr>ok = True, comp = Some gpu_example\<rparr>) = Some 3000000000 \<and>
   snd (gpu_mem_used_total_bytes \<lparr>ok = True, comp = Some [only_used_gpu ''/gpu/0/smalldata/1'' 1000]\<rparr>)
     = None \<and>
   fst (gpu_mem_used_total_bytes \<lparr>ok = True, comp = Some [only_total_gpu ''/gpu/0/smalldata/1'' 2000]\<rparr>)
     = Some 0 \<and>
   gpu_mem_used_total_bytes \<lparr>ok = True, comp = Some [only_used_gpu ''/gpu/0/smalldata/1'' 1000]\<rparr>
     = (Some 1000000000, None) \<and>
   gpu_mem_used_total_bytes \<lparr>ok = True, comp = Some [only_total_gpu ''/gpu/0/smalldata/1'' 2000]\<rparr>
     = (Some 0, Some 2000000000)"
proof -
  have a1: "gpu_accumulate gpu_example = (1500000000, 3000000000, True)"
    by code_simp
  have a2: "gpu_accumulate [only_used_gpu ''/gpu/0/smalldata/1'' 1000] = (1000000000, 0, True)"
    by code_simp
  have a3: "gpu_accumulate [only_total_gpu ''/gpu/0/smalldata/1'' 2000] = (0, 2000000000, True)"
    by code_simp
  have l3: "list_all (\<lambda>hw. fst (gpu_locals hw) = None)
      (filter (\<lambda>hw. str_contains ''Gpu'' (hw_type hw)) [only_total_gpu ''/gpu/0/smalldata/1'' 2000])"
    by code_simp
  show ?thesis
    using
      gpu_mem_presence [where r = "\<lparr>ok = True, comp = Some gpu_example\<rparr>"
        and hws = gpu_example and used = 1500000000 and tot = 3000000000
        and u = 1000 and i = "''/gpu/0/smalldata/1''" and t = 2000]
      gpu_mem_presence [where hws = "[only_used_gpu ''/gpu/0/smalldata/1'' 1000]"
        and r = "\<lparr>ok = True, comp = Some [only_used_gpu ''/gpu/0/smalldata/1'' 1000]\<rparr>"
        and used = 1000000000 and tot = 0]
      gpu_mem_presence [where hws = "[only_total_gpu ''/gpu/0/smalldata/1'' 2000]"
        and r = "\<lparr>ok = True, comp = Some [only_total_gpu ''/gpu/0/smalldata/1'' 2000]\<rparr>"
        and used = 0 and tot = 2000000000]
      a1 a2 a3 l3
    by (simp add: py_trunc_def)
qed

subsection \<open>CPU effective frequency\<close>

lemma map_filter_snoc:
  "List.map_filter f (xs @ [x]) =
     List.map_filter f xs @ (case f x of None \<Rightarrow> [] | Some y \<Rightarrow> [y])"
  by (simp add: List.map_filter_def split: option.splits)

lemma cpu_sensor_step_counted:
  "cpu_sensor_step vals s = vals @ (case counted_clock_value s of None \<Rightarrow> [] | Some v \<Rightarrow> [v])"
  by (simp add: cpu_sensor_step_def counted_clock_value_def Let_def split: option.splits)

lemma cpu_sensor_loop:
  "foldl cpu_sensor_step vals ss = vals @ List.map_filter counted_clock_value ss"
proof (induction ss rule: rev_induct)
  case Nil
  show ?case by (simp add: List.map_filter_def)
next
  case (snoc s ss)
  then show ?case by (simp add: cpu_sensor_step_counted map_filter_snoc)
qed

lemma cpu_hw_step_counted:
  "cpu_hw_step vals hw =
     vals @ (if is_cpu hw then List.map_filter counted_clock_value (hw_sensors hw) else [])"
  by (simp add: cpu_hw_step_def cpu_sensor_loop is_cpu_def)

lemma cpu_hw_loop: "foldl cpu_hw_step vals hws = vals @ counted_clock_values hws"
proof (induction hws arbitrary: vals)
  case Nil
  show ?case by (simp add: counted_clock_values_def)
next
  case (Cons hw hws)
  have a: "foldl cpu_hw_step vals (hw # hws) = cpu_hw_step vals hw @ counted_clock_values hws"
    by (simp add: Cons.IH)
  have b: "cpu_hw_step vals hw @ counted_clock_values hws = vals @ counted_clock_values (hw # hws)"
    by (simp add: cpu_hw_step_counted counted_clock_values_def)
  show ?case
    by (simp only: a b)
qed

text \<open>
  C9, as the claim states it, fails: with two effective-clock sensors reporting 3000 and 0 the
  function returns 3000, not their mean 1500 (a value that is not positive is left out); and
  with an effective-clock sensor at 3000 and a plain \<^verbatim>\<open>Core #1\<close> clock at 4000 it returns
  3500, not 3000 (a clock whose name starts with \<^verbatim>\<open>core #\<close> is counted too).
\<close>

theorem cpu_freq_counterexample:
  "cpu_effective_freq_mhz \<lparr>ok = True, comp = Some freq_example\<rparr> = Some 3000 \<and>
   spec_cpu_effective_freq freq_example = Some 1500 \<and>
   cpu_effective_freq_mhz \<lparr>ok = True, comp = Some freq_example2\<rparr> = Some 3500 \<and>
   spec_cpu_effective_freq freq_example2 = Some 3000"
  by code_simp

text \<open>
  C9, amended. With the library open, \<^verbatim>\<open>cpu_effective_freq_mhz\<close> returns the arithmetic mean
  (not the sum) of the strictly positive values of the clock sensors of the top-level CPU
  nodes whose lowered name contains \<^verbatim>\<open>effective\<close> or starts with \<^verbatim>\<open>core #\<close>, and absent
  when there is no such value; it returns absent when the library is not open.
\<close>

theorem cpu_freq_mean_of_counted:
  "(ok r \<and> comp r = Some hws \<longrightarrow> cpu_effective_freq_mhz r = mean (counted_clock_values hws)) \<and>
   (\<not> ok r \<or> comp r = None \<longrightarrow> cpu_effective_freq_mhz r = None)"
  by (auto simp: cpu_effective_freq_mhz_def cpu_hw_loop mean_def Let_def)

theorem cpu_freq_mean_of_counted_witness:
  "mean (counted_clock_values freq_example2) = Some ((3000 + 4000) / 2) \<and>
   cpu_effective_freq_mhz \<lparr>ok = True, comp = Some freq_example2\<rparr> = Some 3500 \<and>
   cpu_effective_freq_mhz \<lparr>ok = True, comp = Some []\<rparr> = None \<and>
   cpu_effective_freq_mhz \<lparr>ok = False, comp = Some freq_example2\<rparr> = None"
proof -
  have c: "counted_clock_values freq_example2 = [3000, 4000]"
    by code_simp
  have e: "counted_clock_values [] = []"
    by (simp add: counted_clock_values_def)
  show ?thesis
    using cpu_freq_mean_of_counted [of "\<lparr>ok = True, comp = Some freq_example2\<rparr>" freq_example2]
      cpu_freq_mean_of_counted [of "\<lparr>ok = True, comp = Some []\<rparr>" "[]"]
      cpu_freq_mean_of_counted [of "\<lparr>ok = False, comp = Some freq_example2\<rparr>" freq_example2]
    by (simp add: c e mean_def)
qed

subsection \<open>Network and disk throughput\<close>

lemma nic_sensor_step_sum:
  "nic_sensor_step (u, d) s = (u + nic_upload s, d + nic_download s)"
  by (simp add: nic_sensor_step_def nic_upload_def nic_download_def value_or_zero_def Let_def
        split: option.splits)

lemma nic_sensor_loop:
  "foldl nic_sensor_step (u, d) ss =
     (u + sum_list (map nic_upload ss), d + sum_list (map nic_download ss))"
  by (induction ss arbitrary: u d) (simp_all add: nic_sensor_step_sum add.assoc)

lemma nic_locals_sums:
  "nic_locals hw = (sum_list (map nic_upload (hw_sensors hw)), sum_list (map nic_download (hw_sensors hw)))"
  by (simp add: nic_locals_def nic_sensor_loop)

lemma storage_sensor_step_sum:
  "storage_sensor_step (u, d) s = (u + storage_read s, d + storage_write s)"
  by (simp add: storage_sensor_step_def storage_read_def storage_write_def value_or_zero_def Let_def
        is_read_rate_def is_write_rate_def split: option.splits)

lemma storage_sensor_loop:
  "foldl storage_sensor_step (u, d) ss =
     (u + sum_list (map storage_read ss), d + sum_list (map storage_write ss))"
  by (induction ss arbitrary: u d) (simp_all add: storage_sensor_step_sum add.assoc)

lemma storage_locals_sums:
  "storage_locals hw =
     (sum_list (map storage_read (hw_sensors hw)), sum_list (map storage_write (hw_sensors hw)))"
  by (simp add: storage_locals_def storage_sensor_loop)

lemma active_loop:
  assumes step: "\<And>a b c hw. f (a, b, c) hw =
      (if sel hw \<and> (0 < fst (loc hw) \<or> 0 < snd (loc hw))
       then (a + fst (loc hw), b + snd (loc hw), True) else (a, b, c))"
  shows "foldl f (a, b, c) hws =
     (a + sum_list (map (\<lambda>hw. fst (loc hw)) (filter (\<lambda>hw. sel hw \<and> (0 < fst (loc hw) \<or> 0 < snd (loc hw))) hws)),
      b + sum_list (map (\<lambda>hw. snd (loc hw)) (filter (\<lambda>hw. sel hw \<and> (0 < fst (loc hw) \<or> 0 < snd (loc hw))) hws)),
      c \<or> filter (\<lambda>hw. sel hw \<and> (0 < fst (loc hw) \<or> 0 < snd (loc hw))) hws \<noteq> [])"
proof (induction hws arbitrary: a b c)
  case Nil
  show ?case by simp
next
  case (Cons hw hws)
  show ?case
    by (auto simp: step Cons.IH add.assoc)
qed

lemma nic_hw_step_active:
  "nic_hw_step (a, b, c) hw =
     (if lower (hw_type hw) = ''network'' \<and> (0 < fst (nic_locals hw) \<or> 0 < snd (nic_locals hw))
      then (a + fst (nic_locals hw), b + snd (nic_locals hw), True) else (a, b, c))"
  by (cases "nic_locals hw") (simp add: nic_hw_step_def)

lemma storage_hw_step_active:
  "storage_hw_step (a, b, c) hw =
     (if \<not> storage_skipped hw \<and> (0 < fst (storage_locals hw) \<or> 0 < snd (storage_locals hw))
      then (a + fst (storage_locals hw), b + snd (storage_locals hw), True) else (a, b, c))"
  by (cases "storage_locals hw") (simp add: storage_hw_step_def)

lemma nic_result:
  "ok r \<Longrightarrow> comp r = Some hws \<Longrightarrow>
   nic_up_down_bps r = active_sums (\<lambda>hw. lower (hw_type hw) = ''network'') nic_locals hws"
  by (simp add: nic_up_down_bps_def active_loop [of nic_hw_step, OF nic_hw_step_active]
        active_sums_def Let_def)

lemma storage_result:
  "ok r \<Longrightarrow> comp r = Some hws \<Longrightarrow>
   storage_read_write_bps r = active_sums (\<lambda>hw. \<not> storage_skipped hw) storage_locals hws"
  by (simp add: storage_read_write_bps_def active_loop [of storage_hw_step, OF storage_hw_step_active]
        active_sums_def Let_def)

lemma active_sums_none:
  "list_all (\<lambda>hw. fst (loc hw) \<le> 0 \<and> snd (loc hw) \<le> 0) hws \<Longrightarrow> active_sums sel loc hws = (None, None)"
proof -
  assume "list_all (\<lambda>hw. fst (loc hw) \<le> 0 \<and> snd (loc hw) \<le> 0) hws"
  then have "filter (\<lambda>hw. sel hw \<and> (0 < fst (loc hw) \<or> 0 < snd (loc hw))) hws = []"
    by (induction hws) auto
  then show ?thesis by (simp add: active_sums_def)
qed

lemma idle_nic_result: "nic_up_down_bps \<lparr>ok = True, comp = Some idle_nic\<rparr> = (None, None)"
  by code_simp

lemma idle_disk_result: "storage_read_write_bps \<lparr>ok = True, comp = Some idle_disk\<rparr> = (None, None)"
  by code_simp

lemma busy_nic_result: "nic_up_down_bps \<lparr>ok = True, comp = Some busy_nic\<rparr> = (Some 1000000, Some 0)"
  by code_simp


lemma busy_disk_result:
  "storage_read_write_bps \<lparr>ok = True, comp = Some busy_disk\<rparr> = (Some 0, Some 16000)"
  by code_simp

text \<open>
  C4, as the claim states it, fails: a network adapter whose upload and download sensors are
  found and report 0, and a disk whose read and write sensors are found and report 0, give
  (absent, absent), where the claim gives (0, 0).
\<close>

theorem throughput_zero_counterexample:
  "nic_contributing idle_nic \<noteq> [] \<and>
   spec_nic_up_down idle_nic = (Some 0, Some 0) \<and>
   nic_up_down_bps \<lparr>ok = True, comp = Some idle_nic\<rparr> = (None, None) \<and>
   storage_contributing idle_disk \<noteq> [] \<and>
   spec_storage_read_write idle_disk = (Some 0, Some 0) \<and>
   storage_read_write_bps \<lparr>ok = True, comp = Some idle_disk\<rparr> = (None, None)"
proof -
  have "nic_contributing idle_nic \<noteq> []" "spec_nic_up_down idle_nic = (Some 0, Some 0)"
    by code_simp+
  moreover have "storage_contributing idle_disk \<noteq> []"
    "spec_storage_read_write idle_disk = (Some 0, Some 0)"
    by code_simp+
  ultimately show ?thesis
    using idle_nic_result idle_disk_result by simp
qed

text \<open>
  C4, amended. With the library open, \<^verbatim>\<open>nic_up_down_bps\<close> and \<^verbatim>\<open>storage_read_write_bps\<close>
  return absent exactly when no adapter (no disk) has a strictly positive upload or download
  (read or write) sum, in particular when every sum is zero; otherwise they return, times 8
  and truncated, the sums over the adapters (disks) that have one. A node's sums add the value
  of every matching sensor, so a sensor reporting zero adds zero.
\<close>

theorem throughput_active_sums:
  "(ok r \<and> comp r = Some hws \<longrightarrow>
      nic_up_down_bps r = active_sums (\<lambda>hw. lower (hw_type hw) = ''network'') nic_locals hws \<and>
      storage_read_write_bps r = active_sums (\<lambda>hw. \<not> storage_skipped hw) storage_locals hws \<and>
      (list_all (\<lambda>hw. fst (nic_locals hw) \<le> 0 \<and> snd (nic_locals hw) \<le> 0) hws
         \<longrightarrow> nic_up_down_bps r = (None, None)) \<and>
      (list_all (\<lambda>hw. fst (storage_locals hw) \<le> 0 \<and> snd (storage_locals hw) \<le> 0) hws
         \<longrightarrow> storage_read_write_bps r = (None, None))) \<and>
   nic_locals hw =
     (sum_list (map nic_upload (hw_sensors hw)), sum_list (map nic_download (hw_sensors hw))) \<and>
   storage_locals hw =
     (sum_list (map storage_read (hw_sensors hw)), sum_list (map storage_write (hw_sensors hw)))"
  using nic_result [of r hws] storage_result [of r hws]
    active_sums_none [of nic_locals hws "\<lambda>hw. lower (hw_type hw) = ''network''"]
    active_sums_none [of storage_locals hws "\<lambda>hw. \<not> storage_skipped hw"]
    nic_locals_sums [of hw] storage_locals_sums [of hw]
  by simp

theorem throughput_active_sums_witness:
  "active_sums (\<lambda>hw. lower (hw_type hw) = ''network'') nic_locals busy_nic = (Some 1000000, Some 0) \<and>
   active_sums (\<lambda>hw. \<not> storage_skipped hw) storage_locals busy_disk = (Some 0, Some 16000) \<and>
   nic_up_down_bps \<lparr>ok = True, comp = Some idle_nic\<rparr> = (None, None) \<and>
   storage_read_write_bps \<lparr>ok = True, comp = Some idle_disk\<rparr> = (None, None)"
proof -
  have n: "list_all (\<lambda>hw. fst (nic_locals hw) \<le> 0 \<and> snd (nic_locals hw) \<le> 0) idle_nic"
    by code_simp
  have d: "list_all (\<lambda>hw. fst (storage_locals hw) \<le> 0 \<and> snd (storage_locals hw) \<le> 0) idle_disk"
    by code_simp
  have p: "ok \<lparr>ok = True, comp = Some hws\<rparr> \<and> comp \<lparr>ok = True, comp = Some hws\<rparr> = Some hws"
    for hws
    by simp
  have 1: "active_sums (\<lambda>hw. lower (hw_type hw) = ''network'') nic_locals busy_nic =
      (Some 1000000, Some 0)"
    using throughput_active_sums [THEN conjunct1, THEN mp, OF p [of busy_nic]] busy_nic_result
    by metis
  have 2: "active_sums (\<lambda>hw. \<not> storage_skipped hw) storage_locals busy_disk =
      (Some 0, Some 16000)"
    using throughput_active_sums [THEN conjunct1, THEN mp, OF p [of busy_disk]] busy_disk_result
    by metis
  have 3: "nic_up_down_bps \<lparr>ok = True, comp = Some idle_nic\<rparr> = (None, None)"
    using throughput_active_sums [THEN conjunct1, THEN mp, OF p [of idle_nic]] n
    by blast
  have 4: "storage_read_write_bps \<lparr>ok = True, comp = Some idle_disk\<rparr> = (None, None)"
    using throughput_active_sums [THEN conjunct1, THEN mp, OF p [of idle_disk]] d
    by blast
  show ?thesis
    using 1 2 3 4 by blast
qed

subsection \<open>The automatic choice\<close>

lemma max_loop_max:
  "c_value best = Some bk \<Longrightarrow> \<forall>x \<in> set xs. c_value x \<noteq> None \<Longrightarrow>
   \<exists>c v. max_loop best bk xs = Inr c \<and> c \<in> set (best # xs) \<and> c_value c = Some v \<and>
         (\<forall>d \<in> set (best # xs). \<forall>w. c_value d = Some w \<longrightarrow> w \<le> v)"
proof (induction xs arbitrary: best bk)
  case Nil
  then show ?case by simp
next
  case (Cons x xs)
  from Cons.prems obtain k where k: "c_value x = Some k" by auto
  show ?case
  proof (cases "bk < k")
    case True
    from Cons.IH [of x k] k Cons.prems
    obtain c v where "max_loop x k xs = Inr c" "c \<in> set (x # xs)" "c_value c = Some v"
      "\<forall>d \<in> set (x # xs). \<forall>w. c_value d = Some w \<longrightarrow> w \<le> v"
      by auto
    with True k Cons.prems show ?thesis
      by (auto simp: py_float_def intro!: exI [of _ c] exI [of _ v])
  next
    case False
    from Cons.IH [of best bk] Cons.prems
    obtain c v where "max_loop best bk xs = Inr c" "c \<in> set (best # xs)" "c_value c = Some v"
      "\<forall>d \<in> set (best # xs). \<forall>w. c_value d = Some w \<longrightarrow> w \<le> v"
      by auto
    with False k Cons.prems show ?thesis
      by (auto simp: py_float_def intro!: exI [of _ c] exI [of _ v]) 
  qed
qed

lemma py_max_filter:
  assumes val: "\<And>c. P c \<Longrightarrow> c_value c \<noteq> None" and ne: "filter P cs \<noteq> []"
  shows "\<exists>c. py_max (filter P cs) = Inr c \<and> max_among P cs c"
proof -
  from ne obtain x rest where xs: "filter P cs = x # rest"
    by (cases "filter P cs") auto
  have mem: "set (x # rest) = {d \<in> set cs. P d}"
    using xs by (metis set_filter)
  then have allP: "\<forall>y \<in> set (x # rest). P y"
    by blast
  then obtain k where k: "c_value x = Some k"
    using val [of x] by auto
  have "\<forall>y \<in> set rest. c_value y \<noteq> None"
    using allP val by auto
  from max_loop_max [OF k this]
  obtain c v where c: "max_loop x k rest = Inr c" "c \<in> set (x # rest)" "c_value c = Some v"
    "\<forall>d \<in> set (x # rest). \<forall>w. c_value d = Some w \<longrightarrow> w \<le> v"
    by blast
  have "py_max (filter P cs) = Inr c"
    using c(1) k by (simp add: xs py_max_def py_float_def)
  moreover have "max_among P cs c"
  proof -
    have in_cs: "c \<in> set cs" "P c"
      using c(2) mem by auto
    have "value_le d c" if d: "d \<in> set cs" "P d" for d
    proof -
      from d mem have "d \<in> set (x # rest)"
        by blast
      moreover obtain w where w: "c_value d = Some w"
        using val [OF d(2)] by auto
      ultimately have "w \<le> v"
        using c(4) by blast
      then show ?thesis
        by (simp add: value_le_def w c(3))
    qed
    with in_cs show ?thesis
      by (simp add: max_among_def)
  qed
  ultimately show ?thesis by blast
qed

lemma okv_temp_iff: "okv_temp (c_value c) = value_within temp_range c"
  by (auto simp: okv_temp_def value_within_def temp_range_def py_float_def split: option.splits)

lemma okv_fan_iff: "okv_fan (c_value c) = value_within fan_range c"
  by (auto simp: okv_fan_def value_within_def fan_range_def py_float_def split: option.splits)

lemma any_in_iff: "any_in keys (lower (c_name c)) = name_has keys c"
  by (simp add: any_in_def name_has_def list_ex_iff)

lemma filter_nonempty_ex: "(filter P cs \<noteq> []) = list_ex P cs"
  by (auto simp: list_ex_iff filter_empty_conv)

lemma value_within_some: "value_within rng c \<Longrightarrow> c_value c \<noteq> None"
  by (auto simp: value_within_def split: option.splits)

lemma auto_pick_temp_filters:
  "auto_pick_temp temps =
     (if filter cpu_temp temps \<noteq> [] then
        (case py_max (filter cpu_temp temps) of Inl e \<Rightarrow> Inl e | Inr c \<Rightarrow> Inr (Some c))
      else if filter acpi_temp temps \<noteq> [] then
        (case py_max (filter acpi_temp temps) of Inl e \<Rightarrow> Inl e | Inr c \<Rightarrow> Inr (Some c))
      else Inr None)"
  by (simp add: auto_pick_temp_def Let_def okv_temp_iff any_in_iff cpu_temp_def [abs_def]
        acpi_temp_def [abs_def])

lemma auto_pick_fan_filters:
  "auto_pick_fan fans =
     (if filter cpu_fan fans \<noteq> [] then
        (case py_max (filter cpu_fan fans) of Inl e \<Rightarrow> Inl e | Inr c \<Rightarrow> Inr (Some c))
      else if filter lhm_fan fans \<noteq> [] then
        (case py_max (filter lhm_fan fans) of Inl e \<Rightarrow> Inl e | Inr c \<Rightarrow> Inr (Some c))
      else if filter wmi_fan fans \<noteq> [] then
        (case py_max (filter wmi_fan fans) of Inl e \<Rightarrow> Inl e | Inr c \<Rightarrow> Inr (Some c))
      else Inr None)"
  by (simp add: auto_pick_fan_def Let_def okv_fan_iff any_in_iff cpu_fan_def [abs_def]
        lhm_fan_def [abs_def] wmi_fan_def [abs_def])

text \<open>
  C1. For every candidate list, \<^verbatim>\<open>_auto_pick_temp\<close> raises nothing and returns: a candidate of
  maximal value among the \<^verbatim>\<open>LHM\<close> candidates whose lowered name contains \<^verbatim>\<open>package\<close>,
  \<^verbatim>\<open>tctl\<close>, \<^verbatim>\<open>tdie\<close> or \<^verbatim>\<open>cpu\<close> and whose value lies strictly between 0.5 and 120, when
  there is one; failing that a candidate of maximal value among the \<^verbatim>\<open>WMI_ACPI\<close> candidates
  with a value in that interval; failing that, absent.
\<close>

theorem auto_pick_temp_max:
  "(list_ex cpu_temp temps \<longrightarrow>
      (\<exists>c. auto_pick_temp temps = Inr (Some c) \<and> max_among cpu_temp temps c)) \<and>
   (\<not> list_ex cpu_temp temps \<and> list_ex acpi_temp temps \<longrightarrow>
      (\<exists>c. auto_pick_temp temps = Inr (Some c) \<and> max_among acpi_temp temps c)) \<and>
   (\<not> list_ex cpu_temp temps \<and> \<not> list_ex acpi_temp temps \<longrightarrow> auto_pick_temp temps = Inr None)"
proof -
  have 1: "\<exists>c. py_max (filter cpu_temp temps) = Inr c \<and> max_among cpu_temp temps c"
    if "filter cpu_temp temps \<noteq> []"
    using that by (intro py_max_filter) (auto simp: cpu_temp_def value_within_def split: option.splits)
  have 2: "\<exists>c. py_max (filter acpi_temp temps) = Inr c \<and> max_among acpi_temp temps c"
    if "filter acpi_temp temps \<noteq> []"
    using that by (intro py_max_filter) (auto simp: acpi_temp_def value_within_def split: option.splits)
  show ?thesis
    using 1 2 by (auto simp: auto_pick_temp_filters filter_nonempty_ex [symmetric])
qed

theorem auto_pick_temp_max_witness:
  "(\<exists>c. auto_pick_temp temp_example = Inr (Some c) \<and> max_among cpu_temp temp_example c) \<and>
   auto_pick_temp temp_example = Inr (Some (temp_example ! 2)) \<and>
   (\<exists>c. auto_pick_temp temp_acpi_example = Inr (Some c) \<and> max_among acpi_temp temp_acpi_example c) \<and>
   auto_pick_temp temp_acpi_example = Inr (Some (temp_acpi_example ! 2)) \<and>
   auto_pick_temp [] = Inr None"
proof -
  have a: "list_ex cpu_temp temp_example"
    by code_simp
  have b: "\<not> list_ex cpu_temp temp_acpi_example" "list_ex acpi_temp temp_acpi_example"
    by code_simp+
  have c: "auto_pick_temp temp_example = Inr (Some (temp_example ! 2))"
    by code_simp
  have d: "auto_pick_temp temp_acpi_example = Inr (Some (temp_acpi_example ! 2))"
    by code_simp
  show ?thesis
    using auto_pick_temp_max [of temp_example] auto_pick_temp_max [of temp_acpi_example]
      auto_pick_temp_max [of "[]"] a b c d
    by simp
qed

text \<open>
  C5. For every candidate list, \<^verbatim>\<open>_auto_pick_fan\<close> raises nothing and returns: a candidate of
  maximal value among the \<^verbatim>\<open>LHM\<close> candidates whose lowered name contains \<^verbatim>\<open>cpu\<close>, \<^verbatim>\<open>aio\<close>
  or \<^verbatim>\<open>pump\<close> and whose value \<open>v\<close> has \<open>1 \<le> v < 20000\<close>, when there is one; failing that
  one among the \<^verbatim>\<open>LHM\<close> candidates in that range; failing that one among the \<^verbatim>\<open>WMI_FAN\<close>
  candidates in that range; failing that, absent. It never returns a candidate whose value
  is below 1 or at least 20000.
\<close>

theorem auto_pick_fan_max:
  "(list_ex cpu_fan fans \<longrightarrow>
      (\<exists>c. auto_pick_fan fans = Inr (Some c) \<and> max_among cpu_fan fans c)) \<and>
   (\<not> list_ex cpu_fan fans \<and> list_ex lhm_fan fans \<longrightarrow>
      (\<exists>c. auto_pick_fan fans = Inr (Some c) \<and> max_among lhm_fan fans c)) \<and>
   (\<not> list_ex cpu_fan fans \<and> \<not> list_ex lhm_fan fans \<and> list_ex wmi_fan fans \<longrightarrow>
      (\<exists>c. auto_pick_fan fans = Inr (Some c) \<and> max_among wmi_fan fans c)) \<and>
   (\<not> list_ex cpu_fan fans \<and> \<not> list_ex lhm_fan fans \<and> \<not> list_ex wmi_fan fans \<longrightarrow>
      auto_pick_fan fans = Inr None) \<and>
   (\<forall>c. auto_pick_fan fans = Inr (Some c) \<longrightarrow>
      (\<exists>v. c_value c = Some v \<and> \<not> v < 1 \<and> \<not> 20000 \<le> v))"
proof -
  have 1: "\<exists>c. py_max (filter cpu_fan fans) = Inr c \<and> max_among cpu_fan fans c"
    if "filter cpu_fan fans \<noteq> []"
    using that by (intro py_max_filter) (auto simp: cpu_fan_def value_within_def split: option.splits)
  have 2: "\<exists>c. py_max (filter lhm_fan fans) = Inr c \<and> max_among lhm_fan fans c"
    if "filter lhm_fan fans \<noteq> []"
    using that by (intro py_max_filter) (auto simp: lhm_fan_def value_within_def split: option.splits)
  have 3: "\<exists>c. py_max (filter wmi_fan fans) = Inr c \<and> max_among wmi_fan fans c"
    if "filter wmi_fan fans \<noteq> []"
    using that by (intro py_max_filter) (auto simp: wmi_fan_def value_within_def split: option.splits)
  have tiers: "(list_ex cpu_fan fans \<longrightarrow>
      (\<exists>c. auto_pick_fan fans = Inr (Some c) \<and> max_among cpu_fan fans c)) \<and>
   (\<not> list_ex cpu_fan fans \<and> list_ex lhm_fan fans \<longrightarrow>
      (\<exists>c. auto_pick_fan fans = Inr (Some c) \<and> max_among lhm_fan fans c)) \<and>
   (\<not> list_ex cpu_fan fans \<and> \<not> list_ex lhm_fan fans \<and> list_ex wmi_fan fans \<longrightarrow>
      (\<exists>c. auto_pick_fan fans = Inr (Some c) \<and> max_among wmi_fan fans c)) \<and>
   (\<not> list_ex cpu_fan fans \<and> \<not> list_ex lhm_fan fans \<and> \<not> list_ex wmi_fan fans \<longrightarrow>
      auto_pick_fan fans = Inr None)"
    using 1 2 3 by (auto simp: auto_pick_fan_filters filter_nonempty_ex [symmetric])
  have in_range: "\<exists>v. c_value c = Some v \<and> \<not> v < 1 \<and> \<not> 20000 \<le> v"
    if "max_among cpu_fan fans c \<or> max_among lhm_fan fans c \<or> max_among wmi_fan fans c" for c
    using that
    by (auto simp: max_among_def cpu_fan_def lhm_fan_def wmi_fan_def value_within_def
          fan_range_def split: option.splits)
  have picked: "\<exists>v. c_value c = Some v \<and> \<not> v < 1 \<and> \<not> 20000 \<le> v"
    if "auto_pick_fan fans = Inr (Some c)" for c
    using tiers that in_range [of c]
    by (cases "list_ex cpu_fan fans"; cases "list_ex lhm_fan fans"; cases "list_ex wmi_fan fans")
       auto
  show ?thesis
    using tiers picked by blast
qed

theorem auto_pick_fan_max_witness:
  "(\<exists>c. auto_pick_fan fan_example = Inr (Some c) \<and> max_among cpu_fan fan_example c) \<and>
   auto_pick_fan fan_example = Inr (Some (fan_example ! 1)) \<and>
   (\<exists>c. auto_pick_fan fan_lhm_example = Inr (Some c) \<and> max_among lhm_fan fan_lhm_example c) \<and>
   auto_pick_fan fan_lhm_example = Inr (Some (fan_lhm_example ! 1)) \<and>
   (\<exists>c. auto_pick_fan fan_wmi_example = Inr (Some c) \<and> max_among wmi_fan fan_wmi_example c) \<and>
   auto_pick_fan fan_wmi_example = Inr (Some (fan_wmi_example ! 1)) \<and>
   auto_pick_fan [] = Inr None \<and>
   (\<exists>v. c_value (fan_example ! 1) = Some v \<and> \<not> v < 1 \<and> \<not> 20000 \<le> v)"
proof -
  have a: "list_ex cpu_fan fan_example"
    by code_simp
  have b: "\<not> list_ex cpu_fan fan_lhm_example" "list_ex lhm_fan fan_lhm_example"
    by code_simp+
  have c: "\<not> list_ex cpu_fan fan_wmi_example" "\<not> list_ex lhm_fan fan_wmi_example"
    "list_ex wmi_fan fan_wmi_example"
    by code_simp+
  have d: "auto_pick_fan fan_example = Inr (Some (fan_example ! 1))"
    by code_simp
  have e: "auto_pick_fan fan_lhm_example = Inr (Some (fan_lhm_example ! 1))"
    by code_simp
  have f: "auto_pick_fan fan_wmi_example = Inr (Some (fan_wmi_example ! 1))"
    by code_simp
  have g: "\<exists>v. c_value (fan_example ! 1) = Some v \<and> \<not> v < 1 \<and> \<not> 20000 \<le> v"
    using auto_pick_fan_max [of fan_example] d by blast
  show ?thesis
    using auto_pick_fan_max [of fan_example] auto_pick_fan_max [of fan_lhm_example]
      auto_pick_fan_max [of fan_wmi_example] auto_pick_fan_max [of "[]"] a b c d e f g
    by simp
qed

subsection \<open>The selector: loading, saving, selecting\<close>

lemma auto_pick_temp_total: "\<exists>p. auto_pick_temp temps = Inr p"
proof -
  have 1: "\<exists>c. py_max (filter cpu_temp temps) = Inr c \<and> max_among cpu_temp temps c"
    if "filter cpu_temp temps \<noteq> []"
    using that by (intro py_max_filter) (auto simp: cpu_temp_def value_within_def split: option.splits)
  have 2: "\<exists>c. py_max (filter acpi_temp temps) = Inr c \<and> max_among acpi_temp temps c"
    if "filter acpi_temp temps \<noteq> []"
    using that by (intro py_max_filter) (auto simp: acpi_temp_def value_within_def split: option.splits)
  show ?thesis
    using 1 2 by (auto simp: auto_pick_temp_filters)
qed

lemma auto_pick_fan_total: "\<exists>p. auto_pick_fan fans = Inr p"
proof -
  have 1: "\<exists>c. py_max (filter cpu_fan fans) = Inr c \<and> max_among cpu_fan fans c"
    if "filter cpu_fan fans \<noteq> []"
    using that by (intro py_max_filter) (auto simp: cpu_fan_def value_within_def split: option.splits)
  have 2: "\<exists>c. py_max (filter lhm_fan fans) = Inr c \<and> max_among lhm_fan fans c"
    if "filter lhm_fan fans \<noteq> []"
    using that by (intro py_max_filter) (auto simp: lhm_fan_def value_within_def split: option.splits)
  have 3: "\<exists>c. py_max (filter wmi_fan fans) = Inr c \<and> max_among wmi_fan fans c"
    if "filter wmi_fan fans \<noteq> []"
    using that by (intro py_max_filter) (auto simp: wmi_fan_def value_within_def split: option.splits)
  show ?thesis
    using 1 2 3 by (auto simp: auto_pick_fan_filters)
qed

lemma truthy_cand_json: "truthy (cand_json c)"
  by (simp add: cand_json_def)

lemma or_none_sel_json: "or_none (sel_json p) = sel_json p"
  by (cases p) (simp_all add: or_none_def sel_json_def truthy_cand_json)

lemma or_none_idem: "or_none (or_none v) = or_none v"
  by (simp add: or_none_def)

lemma load_config_object:
  "config_file st = Some (Document (JObj kvs)) \<Longrightarrow>
   load_config st =
     (True, st\<lparr>sel_temp := or_none (dict_get kvs ''temp_source''),
               sel_fan := or_none (dict_get kvs ''fan_source'')\<rparr>)"
  by (simp add: load_config_def load_try_def json_load_def py_get_def Let_def)

lemma load_config_not_object:
  "\<not> (\<exists>kvs. config_file st = Some (Document (JObj kvs))) \<Longrightarrow> load_config st = (False, st)"
  by (auto simp: load_config_def load_try_def json_load_def py_get_def
        split: option.splits file_content.splits json.splits)

lemma ask_index_bound: "ask_index n ls = (Inr (Some i), rest) \<Longrightarrow> i < n"
proof (induction ls)
  case Nil
  then show ?case by simp
next
  case (Cons l ls)
  then show ?case
    by (auto simp: Let_def split: if_splits sum.splits)
qed

lemma ask_index_blank: "strip l = [] \<Longrightarrow> ask_index n (l # ls) = (Inr None, ls)"
  by simp

lemma operator_choice_headless: "operator_choice False cands st = (Inr None, st)"
  by (simp add: operator_choice_def)

lemma operator_choice_frame:
  assumes "operator_choice tty cands st = (r, st')"
  shows "config_file st' = config_file st \<and> sel_temp st' = sel_temp st \<and> sel_fan st' = sel_fan st \<and>
         (events st' = events st \<or> events st' = events st @ [Prompt]) \<and>
         (\<forall>c. r = Inr (Some c) \<longrightarrow> c \<in> set cands)"
proof (cases "tty \<and> cands \<noteq> []")
  case False
  with assms show ?thesis by (auto simp: operator_choice_def)
next
  case True
  obtain res rest where a: "ask_index (length cands) (stdin st) = (res, rest)"
    by (cases "ask_index (length cands) (stdin st)")
  have "c \<in> set cands" if "r = Inr (Some c)" for c
  proof -
    from assms True a that obtain i where "res = Inr (Some i)" "c = cands ! i"
      by (auto simp: operator_choice_def Let_def split: sum.splits option.splits)
    with a ask_index_bound [of "length cands" "stdin st" i rest] show ?thesis by simp
  qed
  moreover have "config_file st' = config_file st \<and> sel_temp st' = sel_temp st \<and>
      sel_fan st' = sel_fan st \<and> events st' = events st @ [Prompt]"
    using assms True a
    by (auto simp: operator_choice_def Let_def split: sum.splits option.splits)
  ultimately show ?thesis by blast
qed


lemma select_temp_headless:
  "\<not> is_tty e \<Longrightarrow> auto_pick_temp (list_temp_candidates e) = Inr pt \<Longrightarrow>
   select_temp e st = (None, st\<lparr>sel_temp := sel_json pt, events := events st @ [ListTemp, PickTemp]\<rparr>)"
  by (simp add: select_temp_def operator_choice_headless Let_def)

lemma select_fan_headless:
  "\<not> is_tty e \<Longrightarrow> auto_pick_fan (list_fan_candidates e) = Inr pf \<Longrightarrow>
   select_fan e st = (None, st\<lparr>sel_fan := sel_json pf, events := events st @ [ListFan, PickFan]\<rparr>)"
  by (simp add: select_fan_def operator_choice_headless Let_def)

lemma select_temp_frame:
  assumes "select_temp e st = (r, st')" and "auto_pick_temp (list_temp_candidates e) = Inr pt"
  shows "(\<exists>xs. events st' = events st @ ListTemp # xs) \<and> config_file st' = config_file st \<and>
         sel_fan st' = sel_fan st \<and>
         (r = None \<longrightarrow> sel_temp st' = sel_json pt \<or>
                        (\<exists>c \<in> set (list_temp_candidates e). sel_temp st' = cand_json c))"
proof -
  let ?st1 = "st\<lparr>events := events st @ [ListTemp], sel_temp := JNull\<rparr>"
  obtain res st2 where oc: "operator_choice (is_tty e) (list_temp_candidates e) ?st1 = (res, st2)"
    by (cases "operator_choice (is_tty e) (list_temp_candidates e) ?st1")
  from operator_choice_frame [OF oc]
  have fr: "config_file st2 = config_file st" "sel_fan st2 = sel_fan st"
    "events st2 = events st @ [ListTemp] \<or> events st2 = events st @ [ListTemp, Prompt]"
    "\<forall>c. res = Inr (Some c) \<longrightarrow> c \<in> set (list_temp_candidates e)"
    by auto
  show ?thesis
    using assms oc fr
    by (auto simp: select_temp_def Let_def split: sum.splits option.splits)
qed

lemma select_fan_frame:
  assumes "select_fan e st = (r, st')" and "auto_pick_fan (list_fan_candidates e) = Inr pf"
  shows "(\<exists>xs. events st' = events st @ ListFan # xs) \<and> config_file st' = config_file st \<and>
         sel_temp st' = sel_temp st \<and>
         (r = None \<longrightarrow> sel_fan st' = sel_json pf \<or>
                        (\<exists>c \<in> set (list_fan_candidates e). sel_fan st' = cand_json c))"
proof -
  let ?st1 = "st\<lparr>events := events st @ [ListFan], sel_fan := JNull\<rparr>"
  obtain res st2 where oc: "operator_choice (is_tty e) (list_fan_candidates e) ?st1 = (res, st2)"
    by (cases "operator_choice (is_tty e) (list_fan_candidates e) ?st1")
  from operator_choice_frame [OF oc]
  have fr: "config_file st2 = config_file st" "sel_temp st2 = sel_temp st"
    "events st2 = events st @ [ListFan] \<or> events st2 = events st @ [ListFan, Prompt]"
    "\<forall>c. res = Inr (Some c) \<longrightarrow> c \<in> set (list_fan_candidates e)"
    by auto
  show ?thesis
    using assms oc fr
    by (auto simp: select_fan_def Let_def split: sum.splits option.splits)
qed

lemma ensure_selection_cold:
  "load_config st = (False, st) \<Longrightarrow>
   ensure_selection e st =
     (case select_temp e st of
        (Some err, st1) \<Rightarrow> (Some err, st1)
      | (None, st1) \<Rightarrow>
          (case select_fan e st1 of
             (Some err, st2) \<Rightarrow> (Some err, st2)
           | (None, st2) \<Rightarrow> (None, save_config e st2)))"
  by (simp add: ensure_selection_def)

lemma ensure_selection_headless:
  assumes cold: "load_config st = (False, st)" and tty: "\<not> is_tty e"
    and pt: "auto_pick_temp (list_temp_candidates e) = Inr pt"
    and pf: "auto_pick_fan (list_fan_candidates e) = Inr pf"
  shows "ensure_selection e st =
     (None, save_config e (st\<lparr>sel_temp := sel_json pt, sel_fan := sel_json pf,
                               events := events st @ [ListTemp, PickTemp, ListFan, PickFan]\<rparr>))"
  by (simp add: ensure_selection_cold [OF cold] select_temp_headless [OF tty pt]
        select_fan_headless [OF tty pf])


lemma ensure_selection_started:
  assumes cold: "load_config st = (False, st)"
  shows "\<exists>xs. events (snd (ensure_selection e st)) = events st @ ListTemp # xs"
proof -
  obtain pt where pt: "auto_pick_temp (list_temp_candidates e) = Inr pt"
    using auto_pick_temp_total by blast
  obtain pf where pf: "auto_pick_fan (list_fan_candidates e) = Inr pf"
    using auto_pick_fan_total by blast
  obtain r1 st1 where s1: "select_temp e st = (r1, st1)"
    by (cases "select_temp e st")
  obtain r2 st2 where s2: "select_fan e st1 = (r2, st2)"
    by (cases "select_fan e st1")
  from select_temp_frame [OF s1 pt] obtain xs where f1: "events st1 = events st @ ListTemp # xs"
    by blast
  from select_fan_frame [OF s2 pf] obtain ys where f2: "events st2 = events st1 @ ListFan # ys"
    by blast
  have sv: "events (save_config e st2) = events st2 @ [SaveConfig]"
    by (simp add: save_config_def)
  show ?thesis
    using s1 s2 f1 f2 sv
    by (cases r1; cases r2) (auto simp: ensure_selection_cold [OF cold])
qed


text \<open>
  C2. Where the file can be written, \<^verbatim>\<open>_save_config\<close> followed by \<^verbatim>\<open>_load_config\<close> on the
  same path gives back the temperature and fan selections that were saved, for every pair of
  selections, each a candidate or absent: a selector that finds the written file (\<open>st2\<close>, in
  this process or the next) loads exactly the pair, an absent one as absent; and loading into
  the selector that saved changes nothing.
\<close>

theorem save_load_roundtrip:
  "writable e \<and> sel_temp st = sel_json t \<and> sel_fan st = sel_json f \<and>
   config_file st2 = config_file (save_config e st) \<longrightarrow>
     load_config st2 = (True, st2\<lparr>sel_temp := sel_json t, sel_fan := sel_json f\<rparr>) \<and>
     load_config (save_config e st) = (True, save_config e st)"
proof (intro impI, elim conjE)
  assume w: "writable e" and t: "sel_temp st = sel_json t" and f: "sel_fan st = sel_json f"
    and c: "config_file st2 = config_file (save_config e st)"
  have written: "config_file (save_config e st) =
      Some (Document (JObj [(''temp_source'', sel_json t), (''fan_source'', sel_json f),
                            (''created_at'', JStr (now e))]))"
    using w t f by (simp add: save_config_def)
  have 1: "load_config st2 = (True, st2\<lparr>sel_temp := sel_json t, sel_fan := sel_json f\<rparr>)"
    using load_config_object [of st2, OF c [unfolded written]]
    by (simp add: or_none_sel_json dict_get_def)
  have "load_config (save_config e st) =
      (True, (save_config e st)\<lparr>sel_temp := sel_json t, sel_fan := sel_json f\<rparr>)"
    using load_config_object [of "save_config e st", OF written]
    by (simp add: or_none_sel_json dict_get_def)
  moreover have "(save_config e st)\<lparr>sel_temp := sel_json t, sel_fan := sel_json f\<rparr> = save_config e st"
    using w t f by (simp add: save_config_def)
  ultimately show "load_config st2 = (True, st2\<lparr>sel_temp := sel_json t, sel_fan := sel_json f\<rparr>) \<and>
     load_config (save_config e st) = (True, save_config e st)"
    using 1 by simp
qed

theorem save_load_roundtrip_witness:
  "load_config (fresh (config_file (save_config headless_env
       ((fresh None [])\<lparr>sel_temp := sel_json (Some package_candidate), sel_fan := sel_json None\<rparr>))) []) =
     (True, (fresh (config_file (save_config headless_env
       ((fresh None [])\<lparr>sel_temp := sel_json (Some package_candidate), sel_fan := sel_json None\<rparr>))) [])
         \<lparr>sel_temp := sel_json (Some package_candidate), sel_fan := sel_json None\<rparr>) \<and>
   sel_json (Some package_candidate) \<noteq> JNull \<and> sel_json None = JNull"
proof -
  have w: "writable headless_env"
    by (simp add: headless_env_def)
  have "sel_json (Some package_candidate) \<noteq> JNull" "sel_json None = JNull"
    by (simp_all add: sel_json_def cand_json_def)
  then show ?thesis
    using w save_load_roundtrip [of headless_env
        "(fresh None [])\<lparr>sel_temp := sel_json (Some package_candidate), sel_fan := sel_json None\<rparr>"
        "Some package_candidate" None
        "fresh (config_file (save_config headless_env
           ((fresh None [])\<lparr>sel_temp := sel_json (Some package_candidate), sel_fan := sel_json None\<rparr>))) []"]
    by (simp add: fresh_def)
qed

text \<open>
  C3, as the claim states it, fails. A file holding the JSON text \<^verbatim>\<open>[]\<close> exists and
  parses, yet \<^verbatim>\<open>cfg.get\<close> raises on a list, \<^verbatim>\<open>_load_config\<close> returns \<^verbatim>\<open>False\<close>, and
  \<^verbatim>\<open>ensure_selection\<close> enumerates, runs both automatic choices and writes the file. And a
  field that is not \<^verbatim>\<open>null\<close> but counts as false (\<^verbatim>\<open>{}\<close>, \<^verbatim>\<open>0\<close>) is not adopted as it
  stands: the selection becomes absent.
\<close>

theorem ensure_selection_counterexample:
  "events (snd (ensure_selection headless_env (fresh (Some (Document (JArr []))) []))) =
     [ListTemp, PickTemp, ListFan, PickFan, SaveConfig] \<and>
   config_file (snd (ensure_selection headless_env (fresh (Some (Document (JArr []))) []))) \<noteq>
     Some (Document (JArr [])) \<and>
   sel_temp (snd (ensure_selection headless_env
      (fresh (Some (Document (JObj [(''temp_source'', JObj []), (''fan_source'', JInt 0)]))) []))) = JNull"
  by code_simp

text \<open>
  C3, amended. Whenever the file exists and parses as a JSON object, \<^verbatim>\<open>ensure_selection\<close>
  returns with \<^verbatim>\<open>temp_source\<close> and \<^verbatim>\<open>fan_source\<close> of the file as the two selections, a
  field that is missing, \<^verbatim>\<open>null\<close> or otherwise counts as false in Python becoming an absent
  selection and any other value adopted as it stands; nothing else changes: no candidate is
  enumerated, no line is read from the operator, no automatic choice runs and the file is
  not written. In every other case (no file, a file that does not parse, JSON that is not an
  object) the selection procedure is run, starting with the enumeration of temperatures.
\<close>

theorem ensure_selection_adopts_object:
  "(config_file st = Some (Document (JObj kvs)) \<longrightarrow>
      ensure_selection e st =
        (None, st\<lparr>sel_temp := or_none (dict_get kvs ''temp_source''),
                  sel_fan := or_none (dict_get kvs ''fan_source'')\<rparr>)) \<and>
   (\<not> (\<exists>kvs. config_file st = Some (Document (JObj kvs))) \<longrightarrow>
      (\<exists>xs. events (snd (ensure_selection e st)) = events st @ ListTemp # xs))"
  using load_config_object [of st kvs] load_config_not_object [of st]
    ensure_selection_started [of st e]
  by (auto simp: ensure_selection_def)


theorem ensure_selection_adopts_object_witness:
  "ensure_selection tty_env (fresh (Some (Document persisted)) [''0'', ''0'']) =
     (None, (fresh (Some (Document persisted)) [''0'', ''0''])
              \<lparr>sel_temp := cand_json package_candidate, sel_fan := JNull\<rparr>) \<and>
   (\<exists>xs. events (snd (ensure_selection tty_env (fresh None [''0'', ''0'']))) = [] @ ListTemp # xs)"
proof -
  have a: "config_file (fresh (Some (Document persisted)) [''0'', ''0'']) =
      Some (Document (JObj [(''temp_source'', cand_json package_candidate), (''fan_source'', JNull),
           (''created_at'', JStr ''2024-04-30 09:00:00'')]))"
    by (simp add: fresh_def persisted_def)
  have b: "\<not> (\<exists>kvs. config_file (fresh None [''0'', ''0'']) = Some (Document (JObj kvs)))"
    by (simp add: fresh_def)
  have c: "events (fresh None [''0'', ''0'']) = []"
    by (simp add: fresh_def)
  have d: "or_none (dict_get [(''temp_source'', cand_json package_candidate), (''fan_source'', JNull),
           (''created_at'', JStr ''2024-04-30 09:00:00'')] ''temp_source'') = cand_json package_candidate"
      "or_none (dict_get [(''temp_source'', cand_json package_candidate), (''fan_source'', JNull),
           (''created_at'', JStr ''2024-04-30 09:00:00'')] ''fan_source'') = JNull"
    by (simp_all add: or_none_def dict_get_def cand_json_def)
  show ?thesis
    using ensure_selection_adopts_object [THEN conjunct1, THEN mp, OF a, of tty_env]
      ensure_selection_adopts_object [THEN conjunct2, THEN mp, OF b, of tty_env]
    by (simp add: c d)
qed

subsection \<open>The procedure after a file that does not parse\<close>




lemma save_config_finished:
  "save_config e (st\<lparr>sel_temp := t, sel_fan := f, stdin := lines, events := events st @ done_log\<rparr>) =
     finished e st t f (done_log @ [SaveConfig]) lines"
  by (simp add: save_config_def finished_def written_file_def)




lemma operator_choice_eof:
  "stdin st = [] \<Longrightarrow> cands \<noteq> [] \<Longrightarrow>
   operator_choice True cands st = (Inl EOFError, st\<lparr>stdin := [], events := events st @ [Prompt]\<rparr>)"
  by (simp add: operator_choice_def Let_def)







lemma select_temp_eof:
  "is_tty e \<Longrightarrow> stdin st = [] \<Longrightarrow> list_temp_candidates e \<noteq> [] \<Longrightarrow>
   select_temp e st =
     (Some EOFError, st\<lparr>sel_temp := JNull, stdin := [], events := events st @ [ListTemp, Prompt]\<rparr>)"
  using operator_choice_eof [of "st\<lparr>events := events st @ [ListTemp], sel_temp := JNull\<rparr>"
      "list_temp_candidates e"]
  by (simp add: select_temp_def Let_def)






lemma ensure_selection_input_ends:
  assumes cold: "load_config st = (False, st)" and tty: "is_tty e"
    and lines: "stdin st = []" and nt: "list_temp_candidates e \<noteq> []"
  shows "ensure_selection e st =
     (Some EOFError, st\<lparr>sel_temp := JNull, stdin := [], events := events st @ [ListTemp, Prompt]\<rparr>)"
  by (simp add: ensure_selection_cold [OF cold] select_temp_eof [OF tty lines nt])




text \<open>
  C7. For every pinned selection \<open>sel\<close>: if it is of type \<^verbatim>\<open>LHM\<close> and no sensor of the
  current enumeration has the pinned identifier, or if it is of type \<^verbatim>\<open>WMI_ACPI\<close>
  (\<^verbatim>\<open>WMI_FAN\<close>) and the index stored in its identifier is outside the current list of
  records, the empty list included, then \<^verbatim>\<open>read_temp_c\<close> (\<^verbatim>\<open>read_fan_rpm\<close>) returns absent.
  The two readers are functions of the selector and its surroundings into a value: they
  raise nothing, keep no earlier value and leave the selection as it is.
\<close>

theorem read_absent_when_unresolved:
  "(subscript sel ''type'' = Inr (JStr ''LHM'') \<and> subscript sel ''id'' = Inr ident \<and>
    (\<forall>(hw, s) \<in> set (iter_lhm_sensors_recursive (lhm e)). JStr (s_ident s) \<noteq> ident) \<longrightarrow>
      (sel_temp st = sel \<longrightarrow> read_temp_c e st = None) \<and>
      (sel_fan st = sel \<longrightarrow> read_fan_rpm e st = None)) \<and>
   (subscript sel ''type'' = Inr (JStr ''WMI_ACPI'') \<and> subscript sel ''id'' = Inr (JStr i) \<and>
    py_int (last_field i) = Inr idx \<and> wmi_thermal e = Some zones \<and>
    \<not> (0 \<le> idx \<and> idx < int (length zones)) \<and> sel_temp st = sel \<longrightarrow>
      read_temp_c e st = None) \<and>
   (subscript sel ''type'' = Inr (JStr ''WMI_FAN'') \<and> subscript sel ''id'' = Inr (JStr i) \<and>
    py_int (last_field i) = Inr idx \<and> wmi_fans e = Some fans \<and>
    \<not> (0 \<le> idx \<and> idx < int (length fans)) \<and> sel_fan st = sel \<longrightarrow>
      read_fan_rpm e st = None)"
proof -
  have lhm_none: "read_lhm_by_id (lhm e) ident = None"
    if "\<forall>(hw, s) \<in> set (iter_lhm_sensors_recursive (lhm e)). JStr (s_ident s) \<noteq> ident"
  proof -
    from that have "filter (\<lambda>(hw, s). JStr (s_ident s) = ident) (iter_lhm_sensors_recursive (lhm e)) = []"
      by (auto simp: filter_empty_conv)
    then show ?thesis by (simp add: read_lhm_by_id_def)
  qed
  show ?thesis
    using lhm_none
    by (auto simp: read_temp_c_def read_fan_rpm_def read_temp_body_def read_fan_body_def
          split_last_def)
qed

theorem read_absent_when_unresolved_witness:
  "read_temp_c (headless_env\<lparr>lhm := Some \<lparr>ok = True, comp = Some []\<rparr>\<rparr>)
     ((fresh None [])\<lparr>sel_temp := cand_json package_candidate\<rparr>) = None \<and>
   read_fan_rpm (headless_env\<lparr>lhm := None\<rparr>)
     ((fresh None [])\<lparr>sel_fan := cand_json cpu_fan_candidate\<rparr>) = None \<and>
   read_temp_c (headless_env\<lparr>wmi_thermal := Some []\<rparr>)
     ((fresh None [])\<lparr>sel_temp := cand_json acpi_candidate\<rparr>) = None \<and>
   read_fan_rpm (headless_env\<lparr>wmi_fans := Some [\<lparr>fan_speed = Some 1200, fan_desired = None,
        fan_name = ''Cooling Device'', fan_device = ''FAN0''\<rparr>]\<rparr>)
     ((fresh None [])\<lparr>sel_fan := cand_json wmi_fan_candidate2\<rparr>) = None \<and>
   read_temp_c headless_env ((fresh None [])\<lparr>sel_temp := cand_json package_candidate\<rparr>) = Some 55"
proof -
  let ?e1 = "headless_env\<lparr>lhm := Some \<lparr>ok = True, comp = Some []\<rparr>\<rparr>"
  let ?e2 = "headless_env\<lparr>lhm := None\<rparr>"
  let ?e3 = "headless_env\<lparr>wmi_thermal := Some []\<rparr>"
  let ?e4 = "headless_env\<lparr>wmi_fans := Some [\<lparr>fan_speed = Some 1200, fan_desired = None,
        fan_name = ''Cooling Device'', fan_device = ''FAN0''\<rparr>]\<rparr>"
  have t1: "subscript (cand_json package_candidate) ''type'' = Inr (JStr ''LHM'')"
    "subscript (cand_json package_candidate) ''id'' = Inr (JStr ''/intelcpu/0/temperature/0'')"
    "subscript (cand_json cpu_fan_candidate) ''type'' = Inr (JStr ''LHM'')"
    "subscript (cand_json cpu_fan_candidate) ''id'' = Inr (JStr ''/lpc/nct6798d/fan/0'')"
    "subscript (cand_json acpi_candidate) ''type'' = Inr (JStr ''WMI_ACPI'')"
    "subscript (cand_json acpi_candidate) ''id'' = Inr (JStr ''WMI:ACPI:0'')"
    "subscript (cand_json wmi_fan_candidate2) ''type'' = Inr (JStr ''WMI_FAN'')"
    "subscript (cand_json wmi_fan_candidate2) ''id'' = Inr (JStr ''WMI:FAN:2'')"
    by (simp_all add: subscript_def cand_json_def package_candidate_def cpu_fan_candidate_def
          acpi_candidate_def wmi_fan_candidate2_def)
  have i1: "iter_lhm_sensors_recursive (lhm ?e1) = []" "iter_lhm_sensors_recursive (lhm ?e2) = []"
    by (simp_all add: iter_lhm_sensors_recursive_def)
  have p: "py_int (last_field ''WMI:ACPI:0'') = Inr 0" "py_int (last_field ''WMI:FAN:2'') = Inr 2"
    by code_simp+
  have w: "wmi_thermal ?e3 = Some []"
    "wmi_fans ?e4 = Some [\<lparr>fan_speed = Some 1200, fan_desired = None,
        fan_name = ''Cooling Device'', fan_device = ''FAN0''\<rparr>]"
    by simp_all
  have 1: "read_temp_c ?e1 ((fresh None [])\<lparr>sel_temp := cand_json package_candidate\<rparr>) = None"
    using read_absent_when_unresolved [where e = ?e1 and sel = "cand_json package_candidate"
        and ident = "JStr ''/intelcpu/0/temperature/0''"
        and st = "(fresh None [])\<lparr>sel_temp := cand_json package_candidate\<rparr>", THEN conjunct1]
      t1 i1
    by simp
  have 2: "read_fan_rpm ?e2 ((fresh None [])\<lparr>sel_fan := cand_json cpu_fan_candidate\<rparr>) = None"
    using read_absent_when_unresolved [where e = ?e2 and sel = "cand_json cpu_fan_candidate"
        and ident = "JStr ''/lpc/nct6798d/fan/0''"
        and st = "(fresh None [])\<lparr>sel_fan := cand_json cpu_fan_candidate\<rparr>", THEN conjunct1]
      t1 i1
    by simp
  have 3: "read_temp_c ?e3 ((fresh None [])\<lparr>sel_temp := cand_json acpi_candidate\<rparr>) = None"
    using read_absent_when_unresolved [where e = ?e3 and sel = "cand_json acpi_candidate"
        and i = "''WMI:ACPI:0''" and idx = 0 and zones = "[]"
        and st = "(fresh None [])\<lparr>sel_temp := cand_json acpi_candidate\<rparr>",
        THEN conjunct2, THEN conjunct1]
      t1 p w
    by simp
  have 4: "read_fan_rpm ?e4 ((fresh None [])\<lparr>sel_fan := cand_json wmi_fan_candidate2\<rparr>) = None"
    using read_absent_when_unresolved [where e = ?e4 and sel = "cand_json wmi_fan_candidate2"
        and i = "''WMI:FAN:2''" and idx = 2
        and fans = "[\<lparr>fan_speed = Some 1200, fan_desired = None,
             fan_name = ''Cooling Device'', fan_device = ''FAN0''\<rparr>]"
        and st = "(fresh None [])\<lparr>sel_fan := cand_json wmi_fan_candidate2\<rparr>",
        THEN conjunct2, THEN conjunct2]
      t1 p w
    by simp
  have 5: "read_temp_c headless_env ((fresh None [])\<lparr>sel_temp := cand_json package_candidate\<rparr>) = Some 55"
    by code_simp
  show ?thesis
    using 1 2 3 4 5 by blast
qed

end
